theory Spec2Isabelle
  imports Complex_Main
begin

section \<open>Common model: object identity, exceptions\<close>

text \<open>
  The editors keep their annotation records in a JavaScript \<open>Set\<close>, whose membership is by
  object identity, and they mutate the records in place. A record is therefore a reference
  into a store; the store is total (a reference always denotes an object), and a counter
  gives the next unused reference, so that \<open>observable({...})\<close> on a fresh object literal
  allocates a new identity.

  A JavaScript exception leaves every mutation made before the \<open>throw\<close> in place, so a thrown
  outcome carries the state reached at the throw. \<open>OutsideModel\<close> is no exception of the
  source: it ends a run at a step whose result the types here cannot hold (an array with
  holes, a node index that is not an integer).
\<close>

type_synonym ref = nat

datatype error = Error string | TypeError | OutsideModel

datatype 'a outcome = Returned 'a | Thrown error 'a

fun state_of :: "'a outcome \<Rightarrow> 'a" where
  "state_of (Returned s) = s"
| "state_of (Thrown e s) = s"

fun andThen :: "'a outcome \<Rightarrow> ('a \<Rightarrow> 'a outcome) \<Rightarrow> 'a outcome" where
  "andThen (Returned s) f = f s"
| "andThen (Thrown e s) f = Thrown e s"

text \<open>\<open>Set.prototype.add\<close> and \<open>delete\<close> on a set held in insertion order.\<close>

definition set_add :: "ref \<Rightarrow> ref list \<Rightarrow> ref list" where
  "set_add r xs = (if r \<in> set xs then xs else xs @ [r])"

definition set_delete :: "ref \<Rightarrow> ref list \<Rightarrow> ref list" where
  "set_delete r xs = removeAll r xs"

section \<open>The 3D cuboid editor (pxn-cuboid.ts, cuboid-manager, create-controller)\<close>

type_synonym vec3 = "real \<times> real \<times> real"

text \<open>
  The \<open>Cuboid\<close> type is declared in \<open>types.ts\<close>, which is not part of the sources at hand; its
  fields are those the specification lists: id, position, size, heading and color. Numbers
  are JavaScript doubles, idealised here as reals.
\<close>

record Cuboid =
  id_c :: string
  position :: vec3
  size_c :: vec3
  heading :: real
  color_c :: string

text \<open>
  Modelled from the spec: \<open>normalizeAngle\<close> lives in \<open>utils.ts\<close>, which is missing. The
  specification says it "maps any real radian value to a canonical representative in a fixed
  half-open interval of length 2\<pi> (e.g. (-\<pi>, \<pi>])".
\<close>

definition normalizeAngle :: "real \<Rightarrow> real" where
  "normalizeAngle a = a - 2 * pi * of_int \<lceil>(a - pi) / (2 * pi)\<rceil>"

text \<open>The lifecycle events the host receives, each with its \<open>detail\<close>.\<close>

datatype event3 =
    Create ref
  | Update "ref option"
  | Delete ref
  | Selection "ref list"

text \<open>The ground rectangle of the create gesture: the fields \<open>onMouseUp\<close> reads.\<close>

record GroundRectangle =
  rect_position :: vec3
  rect_scale :: "real \<times> real"
  rect_rotation_z :: real

text \<open>
  What a sub-controller leaves outside itself and \<open>destroy\<close> has to take back: the transient
  visuals it adds to the viewer's scene, and the listeners it registers on the viewer's DOM
  element. A listener is an event type with the object whose bound method is the callback:
  the manager, or a create controller (by its number, each controller binding callbacks of
  its own).
\<close>

datatype visual = Disc nat | Rect nat

datatype owner = Manager | Creator nat

type_synonym listener = "string \<times> owner"

text \<open>
  \<open>CreateModeController\<close>: the cursor disc is present or not (its position is visual only);
  the rectangle exists from the first pointer-down on; \<open>eventListeners\<close> are the listeners the
  constructor registered.
\<close>

record CreateModeController =
  ctrl_id :: nat
  groundCursor :: bool
  groundRect :: "GroundRectangle option"
  eventListeners :: "listener list"

record OrbitControls =
  object :: nat
  enabled :: bool

text \<open>
  One record holds the state of a \<open>CuboidEditor\<close> and of its \<open>ModeManager\<close>: the manager's
  \<open>annotations\<close> is the editor's \<open>_editableCuboids\<close> (the same set object) and the manager's
  \<open>eventTarget\<close> is the editor element, whose dispatched events are logged in \<open>dispatched\<close>.
  An \<open>EditModeController\<close> (source missing) is represented by the cuboid it was built for,
  and the calls of its \<open>destroy\<close> are recorded in \<open>editDestroyed\<close>. \<open>scene\<close> and \<open>domListeners\<close>
  are the transient visuals in the viewer's scene and the listeners on its DOM element.
  Rendering is left out.
\<close>

record CuboidEditor =
  cuboids :: "ref \<Rightarrow> Cuboid"
  nextRef :: ref
  editableCuboids :: "ref list"
  camera :: nat
  orbitControls :: OrbitControls
  navigating :: bool
  editMode :: "ref option"
  editing :: bool
  updatePending :: bool
  editTarget :: "ref option"
  createMode :: "CreateModeController option"
  dispatched :: "event3 list"
  editDestroyed :: "ref list"
  nextCtrl :: nat
  scene :: "visual list"
  domListeners :: "listener list"

definition dispatchEvent :: "event3 \<Rightarrow> CuboidEditor \<Rightarrow> CuboidEditor" where
  "dispatchEvent e s = s\<lparr>dispatched := dispatched s @ [e]\<rparr>"

text \<open>\<open>ModeManager.mode\<close> (getter).\<close>

definition mode :: "CuboidEditor \<Rightarrow> string option" where
  "mode s = (if editMode s \<noteq> None then Some ''edit''
             else if createMode s \<noteq> None then Some ''create''
             else None)"

text \<open>
  \<open>CreateModeController.state\<close> (getter), the constructor and \<open>destroy\<close>. The constructor adds
  the cursor disc to the scene and registers the three mouse listeners; \<open>destroy\<close> removes
  from the scene the disc and the rectangle that exist, forgets them, and removes every
  listener of \<open>eventListeners\<close> from the DOM element.
\<close>

definition state :: "CreateModeController \<Rightarrow> string" where
  "state c = (if groundCursor c then ''pre''
              else if groundRect c \<noteq> None then ''selecting''
              else ''done'')"

definition new_CreateModeController :: "CuboidEditor \<Rightarrow> CreateModeController \<times> CuboidEditor" where
  "new_CreateModeController s =
    (let k = nextCtrl s;
         s1 = s\<lparr>nextCtrl := Suc k, scene := scene s @ [Disc k]\<rparr>;
         ls = [(''mousedown'', Creator k), (''mousemove'', Creator k), (''mouseup'', Creator k)];
         s2 = s1\<lparr>domListeners := domListeners s1 @ ls\<rparr>
     in (\<lparr>ctrl_id = k, groundCursor = True, groundRect = None, eventListeners = ls\<rparr>, s2))"

definition destroy_create ::
  "CreateModeController \<Rightarrow> CuboidEditor \<Rightarrow> CreateModeController \<times> CuboidEditor" where
  "destroy_create c s =
    (let s1 = (if groundCursor c
               then s\<lparr>scene := removeAll (Disc (ctrl_id c)) (scene s)\<rparr> else s);
         c1 = c\<lparr>groundCursor := False\<rparr>;
         s2 = (if groundRect c1 \<noteq> None
               then s1\<lparr>scene := removeAll (Rect (ctrl_id c1)) (scene s1)\<rparr> else s1);
         c2 = c1\<lparr>groundRect := None\<rparr>;
         s3 = s2\<lparr>domListeners := fold removeAll (eventListeners c2) (domListeners s2)\<rparr>
     in (c2, s3))"

text \<open>
  \<open>ModeManager.setMode\<close>, first half ("Restore default state"): the statements before the
  test of \<open>mode\<close>.
\<close>

definition restoreDefault :: "CuboidEditor \<Rightarrow> CuboidEditor" where
  "restoreDefault s =
    (let s1 = (case editMode s of
                 Some t \<Rightarrow>
                   (let a = s\<lparr>editDestroyed := editDestroyed s @ [t], editMode := None\<rparr>;
                        b = (if updatePending a
                             then (dispatchEvent (Update (editTarget a)) a)\<lparr>updatePending := False\<rparr>
                             else a)
                    in dispatchEvent (Selection []) b)
               | None \<Rightarrow> s);
         s2 = (case createMode s1 of
                 Some c \<Rightarrow> (snd (destroy_create c s1))\<lparr>createMode := None\<rparr>
               | None \<Rightarrow> s1);
         s3 = (if object (orbitControls s2) \<noteq> camera s2
               then s2\<lparr>orbitControls := \<lparr>object = camera s2, enabled = True\<rparr>\<rparr>
               else s2)
     in s3\<lparr>orbitControls := (orbitControls s3)\<lparr>enabled := True\<rparr>,
           navigating := False, editing := False\<rparr>)"

text \<open>\<open>ModeManager.setMode\<close>.\<close>

definition setMode :: "string option \<Rightarrow> CuboidEditor \<Rightarrow> CuboidEditor outcome" where
  "setMode m s =
    (let s1 = restoreDefault s in
     if m = Some ''edit'' then
       (case editTarget s1 of
          None \<Rightarrow> Thrown (Error ''cannot go into edit mode without a target'') s1
        | Some t \<Rightarrow> Returned (dispatchEvent (Selection [t]) (s1\<lparr>editMode := Some t\<rparr>)))
     else if m = Some ''create'' then
       (let s2 = s1\<lparr>orbitControls := (orbitControls s1)\<lparr>enabled := False\<rparr>\<rparr>;
            (c, s3) = new_CreateModeController s2
        in Returned (s3\<lparr>createMode := Some c\<rparr>))
     else Returned s1)"

text \<open>
  The listener that \<open>setMode('create')\<close> registers for the controller's \<open>create\<close> event.
\<close>

definition onCreate :: "ref \<Rightarrow> CuboidEditor \<Rightarrow> CuboidEditor outcome" where
  "onCreate detail s =
    andThen (setMode (Some ''edit'') (s\<lparr>editTarget := Some detail\<rparr>))
            (\<lambda>s'. Returned (dispatchEvent (Create detail) s'))"

text \<open>
  The listeners of the edit sub-controller's \<open>start\<close>, \<open>change\<close> and \<open>stop\<close> events, registered
  by \<open>setMode('edit')\<close>.
\<close>

definition onEditStart :: "CuboidEditor \<Rightarrow> CuboidEditor" where
  "onEditStart s = s\<lparr>orbitControls := (orbitControls s)\<lparr>enabled := False\<rparr>, editing := True\<rparr>"

definition onEditChange :: "CuboidEditor \<Rightarrow> CuboidEditor" where
  "onEditChange s = s\<lparr>updatePending := True\<rparr>"

definition onEditStop :: "CuboidEditor \<Rightarrow> CuboidEditor" where
  "onEditStop s =
    (let a = s\<lparr>orbitControls := (orbitControls s)\<lparr>enabled := True\<rparr>\<rparr>;
         b = (if updatePending a then dispatchEvent (Update (editTarget a)) a else a)
     in b\<lparr>updatePending := False\<rparr>)"

text \<open>
  The manager's observer of the annotation set, for the operations the editor performs here:
  \<open>add\<close> only registers a per-record render observer; \<open>delete\<close> leaves the current mode and
  clears the target. Modelled from the spec: the observable set of \<open>@pixano/core\<close> is missing;
  it "emits structural events add, delete, clear with the affected value(s)", "strictly after
  the mutation that caused them".
\<close>

definition annotations_add :: "ref \<Rightarrow> CuboidEditor \<Rightarrow> CuboidEditor" where
  "annotations_add r s = s\<lparr>editableCuboids := set_add r (editableCuboids s)\<rparr>"

definition annotations_delete :: "ref \<Rightarrow> CuboidEditor \<Rightarrow> CuboidEditor" where
  "annotations_delete r s =
    (if r \<in> set (editableCuboids s)
     then (restoreDefault (s\<lparr>editableCuboids := set_delete r (editableCuboids s)\<rparr>))
            \<lparr>editTarget := None\<rparr>
     else s)"

text \<open>\<open>CuboidEditor.mode\<close> (setter) is \<open>setMode\<close>; \<open>CuboidEditor.editTarget\<close> (setter):\<close>

definition set_editTarget :: "ref option \<Rightarrow> CuboidEditor \<Rightarrow> CuboidEditor outcome" where
  "set_editTarget cuboid s =
    (case cuboid of
       Some c \<Rightarrow>
         if c \<notin> set (editableCuboids s)
         then Thrown (Error ''target is not an existing annotation'') s
         else setMode (Some ''edit'') (s\<lparr>editTarget := Some c\<rparr>)
     | None \<Rightarrow> Returned (s\<lparr>editTarget := None\<rparr>))"

text \<open>\<open>CuboidEditor.swap\<close> and \<open>CuboidEditor.rotate\<close> (\<open>rotate_c\<close>: the name is taken for lists).\<close>

definition swap :: "CuboidEditor \<Rightarrow> CuboidEditor" where
  "swap s =
    (case editTarget s of
       Some sel \<Rightarrow>
         (let c = cuboids s sel;
              c1 = c\<lparr>size_c := (case size_c c of (l, w, h) \<Rightarrow> (w, l, h))\<rparr>;
              c2 = c1\<lparr>heading := normalizeAngle (heading c1 - pi / 2)\<rparr>
          in s\<lparr>cuboids := (cuboids s)(sel := c2)\<rparr>)
     | None \<Rightarrow> s)"

definition rotate_c :: "CuboidEditor \<Rightarrow> CuboidEditor" where
  "rotate_c s =
    (case editTarget s of
       Some sel \<Rightarrow>
         (let c = cuboids s sel
          in s\<lparr>cuboids := (cuboids s)(sel := c\<lparr>heading := normalizeAngle (heading c - pi / 2)\<rparr>)\<rparr>)
     | None \<Rightarrow> s)"

text \<open>\<open>CuboidEditor.defaultOnKeyDown\<close>, on the \<open>key\<close> of the keyboard event.\<close>

definition defaultOnKeyDown :: "string \<Rightarrow> CuboidEditor \<Rightarrow> CuboidEditor outcome" where
  "defaultOnKeyDown key s =
    (if key = '' '' \<and> editTarget s \<noteq> None then
       (case editTarget s of
          Some t \<Rightarrow>
            (let c = cuboids s t;
                 s1 = s\<lparr>cuboids := (cuboids s)(t := c\<lparr>heading := heading c - pi / 2\<rparr>)\<rparr>
             in Returned (dispatchEvent (Update (editTarget s1)) s1))
        | None \<Rightarrow> Returned s)
     else if key = ''Escape'' then
       andThen (setMode None s) (set_editTarget None)
     else if key = ''Delete'' \<and> editTarget s \<noteq> None then
       (case editTarget s of
          Some annotation \<Rightarrow>
            Returned (dispatchEvent (Delete annotation) (annotations_delete annotation s))
        | None \<Rightarrow> Returned s)
     else if key = ''c'' then setMode (Some ''create'') s
     else Returned s)"

text \<open>
  \<open>CreateModeController.onMouseUp\<close>, with the manager's \<open>create\<close> listener run by the
  \<open>dispatchEvent\<close> at its end. \<open>fitBoxWithAutoZ\<close> (missing, \<open>utils.ts\<close>) is the parameter \<open>fit\<close>,
  applied to the centre, the footprint and the heading (the point cloud buffer is part of
  it); \<open>newId\<close> is the string drawn from \<open>Math.random\<close>.
\<close>

definition onMouseUp ::
  "(vec3 \<Rightarrow> real \<times> real \<Rightarrow> real \<Rightarrow> Cuboid) \<Rightarrow> string \<Rightarrow> CuboidEditor \<Rightarrow> CuboidEditor outcome" where
  "onMouseUp fit newId s =
    (case createMode s of
       None \<Rightarrow> Returned s
     | Some c \<Rightarrow>
         if state c = ''selecting'' then
           (case groundRect c of
              None \<Rightarrow> Returned s
            | Some rect \<Rightarrow>
                (let l = \<bar>snd (rect_scale rect)\<bar>;
                     w = \<bar>fst (rect_scale rect)\<bar>;
                     hd0 = rect_rotation_z rect - pi / 2;
                     box = fit (rect_position rect) (l, w) hd0;
                     cuboid = nextRef s;
                     s1 = s\<lparr>cuboids := (cuboids s)(cuboid := box\<lparr>id_c := newId\<rparr>),
                            nextRef := Suc (nextRef s)\<rparr>;
                     (c1, s1') = destroy_create c s1;
                     s2 = s1'\<lparr>createMode := Some c1\<rparr>;
                     s3 = annotations_add cuboid s2
                 in onCreate cuboid s3))
         else Returned s)"

text \<open>A cuboid and an editor state with that cuboid selected, for concrete evaluation.\<close>

definition cuboidA :: "real \<Rightarrow> Cuboid" where
  "cuboidA h = \<lparr>id_c = ''A'', position = (0, 0, 0), size_c = (4, 2, 1), heading = h,
                color_c = ''red''\<rparr>"

definition editorA :: "real \<Rightarrow> CuboidEditor" where
  "editorA h = \<lparr>cuboids = (\<lambda>r. cuboidA h), nextRef = 1, editableCuboids = [0], camera = 0,
                orbitControls = \<lparr>object = 0, enabled = True\<rparr>, navigating = False,
                editMode = Some 0, editing = False, updatePending = False,
                editTarget = Some 0, createMode = None, dispatched = [],
                editDestroyed = [], nextCtrl = 1, scene = [],
                domListeners = [(''mousemove'', Manager), (''mouseup'', Manager)]\<rparr>"

text \<open>An editor in \<open>create\<close> mode whose rectangle is being drawn, and a box fit.\<close>

definition creatorA :: CreateModeController where
  "creatorA =
     \<lparr>ctrl_id = 0, groundCursor = False,
      groundRect = Some \<lparr>rect_position = (1, 3 / 2, 0), rect_scale = (2, - 3),
                          rect_rotation_z = 0\<rparr>,
      eventListeners = [(''mousedown'', Creator 0), (''mousemove'', Creator 0),
                        (''mouseup'', Creator 0)]\<rparr>"

definition editorSelecting :: CuboidEditor where
  "editorSelecting =
     (editorA 0)\<lparr>editMode := None, editTarget := None,
       orbitControls := \<lparr>object = 0, enabled = False\<rparr>,
       createMode := Some creatorA, scene := [Rect 0],
       domListeners := [(''mousemove'', Manager), (''mouseup'', Manager),
                        (''mousedown'', Creator 0), (''mousemove'', Creator 0),
                        (''mouseup'', Creator 0)]\<rparr>"

definition fitFlat :: "vec3 \<Rightarrow> real \<times> real \<Rightarrow> real \<Rightarrow> Cuboid" where
  "fitFlat p lw h = \<lparr>id_c = [], position = p, size_c = (fst lw, snd lw, 1), heading = h,
                     color_c = []\<rparr>"

section \<open>The 2D polygon editor (pxn-polygon.ts)\<close>

text \<open>
  \<open>ShapeData\<close> and its \<open>geometry\<close> (\<open>types.ts\<close>, missing): the fields the polygon editor reads
  and writes. \<open>mvertices\<close> is optional: a polygon drawn by the editor has none, and the code
  reads it with a non-null assertion.
\<close>

record Geometry =
  vertices :: "real list"
  geom_type :: string
  mvertices :: "real list list option"

record ShapeData =
  id_s :: string
  geometry :: Geometry
  color_s :: string

text \<open>
  A \<open>PolygonShape\<close> (\<open>shapes-2d.ts\<close>, missing) is the visual object of a record: the record it
  draws, the position of the last click, and the number of its vertex handles.
\<close>

record PolygonShape =
  data :: ref
  lastX :: real
  lastY :: real
  nodes :: nat

datatype event2 = CreatingPolygon | UpdateIds "string list"

text \<open>
  The state of a \<open>Polygon\<close> element with its \<open>PolygonsManager\<close>: the store of records, the
  annotation set \<open>shapes\<close>, the selection \<open>targetShapes\<close> (both in insertion order), the
  manager's fields, the events it emits, the console warnings, and the browser's pending
  timers (identifier and delay in milliseconds).
\<close>

record Polygon =
  store :: "ref \<Rightarrow> ShapeData"
  fresh :: ref
  shapes :: "ref list"
  targetShapes :: "ref list"
  mode_2d :: string
  imageWidth :: real
  imageHeight :: real
  isDbClick :: int
  activeNodeIdx :: int
  isNodeTranslating :: bool
  isMidNodeTranslating :: bool
  isCreating :: bool
  updated :: bool
  mouseX :: real
  mouseY :: real
  tmpShape :: "PolygonShape option"
  cachedShape :: "ShapeData option"
  emitted :: "event2 list"
  warnings :: "string list"
  timers :: "(nat \<times> nat) list"
  timerCount :: nat

text \<open>
  The code of the base class \<open>ShapesManager\<close> and of \<open>PolygonShape\<close> is missing; the handlers
  take what they call from it as parameters: the inherited handlers, the shape's
  \<open>pushNode\<close>, \<open>popNode\<close>, \<open>removeNode\<close> and \<open>isValid\<close>, and the shape constructor.
  \<open>insertMidNode\<close> (\<open>utils.ts\<close>, missing) is a parameter too.
\<close>

record Collaborators =
  super_onRootDown :: "Polygon \<Rightarrow> Polygon outcome"
  super_onRootUp :: "Polygon \<Rightarrow> Polygon outcome"
  pushNode :: "real \<Rightarrow> real \<Rightarrow> PolygonShape \<Rightarrow> ShapeData \<Rightarrow> PolygonShape \<times> ShapeData"
  popNode :: "PolygonShape \<Rightarrow> ShapeData \<Rightarrow> PolygonShape \<times> ShapeData"
  isValid :: "PolygonShape \<Rightarrow> ShapeData \<Rightarrow> bool"
  newPolygonShape :: "ref \<Rightarrow> ShapeData \<Rightarrow> PolygonShape"
  super_onRootMove :: "Polygon \<Rightarrow> Polygon outcome"
  removeNode :: "int \<Rightarrow> PolygonShape \<Rightarrow> ShapeData \<Rightarrow> PolygonShape \<times> ShapeData"
  insertMidNode :: "real list \<Rightarrow> int \<Rightarrow> real list"

text \<open>\<open>getFlattenVertices\<close>.\<close>

definition getFlattenVertices :: "Geometry \<Rightarrow> error + real list list" where
  "getFlattenVertices s =
    (if geom_type s = ''multi_polygon'' then
       (case mvertices s of
          None \<Rightarrow> Inl TypeError
        | Some mv \<Rightarrow> Inr (map (\<lambda>v. v) mv))
     else Inr [vertices s])"

text \<open>\<open>observable(obj)\<close> on a new object, and the set operations of \<open>this.shapes\<close>.\<close>

definition observable :: "ShapeData \<Rightarrow> Polygon \<Rightarrow> ref \<times> Polygon" where
  "observable v c = (fresh c, c\<lparr>store := (store c)(fresh c := v), fresh := Suc (fresh c)\<rparr>)"

definition shapes_add :: "ref \<Rightarrow> Polygon \<Rightarrow> Polygon" where
  "shapes_add r c = c\<lparr>shapes := set_add r (shapes c)\<rparr>"

definition shapes_delete :: "ref \<Rightarrow> Polygon \<Rightarrow> Polygon" where
  "shapes_delete r c = c\<lparr>shapes := set_delete r (shapes c)\<rparr>"

text \<open>\<open>Array.prototype.reduce\<close> with an initial value, for a callback that can throw.\<close>

fun reduce :: "('b \<Rightarrow> 'a \<Rightarrow> error + 'b) \<Rightarrow> 'a list \<Rightarrow> 'b \<Rightarrow> error + 'b" where
  "reduce f [] acc = Inr acc"
| "reduce f (x # xs) acc =
     (case f acc x of Inl e \<Rightarrow> Inl e | Inr acc' \<Rightarrow> reduce f xs acc')"

text \<open>\<open>Polygon.merge\<close>: the callback of its \<open>reduce\<close>, the initial value, and the method.\<close>

definition mergeStep :: "ShapeData \<Rightarrow> ShapeData \<Rightarrow> error + ShapeData" where
  "mergeStep prev cur =
    (case getFlattenVertices (geometry cur) of
       Inl e \<Rightarrow> Inl e
     | Inr currVertices \<Rightarrow>
         (case mvertices (geometry prev) of
            None \<Rightarrow> Inl TypeError
          | Some pm \<Rightarrow>
              Inr (prev\<lparr>id_s := id_s prev @ id_s cur,
                        geometry := (geometry prev)\<lparr>mvertices := Some (pm @ currVertices)\<rparr>\<rparr>)))"

definition mergeInit :: "ShapeData \<Rightarrow> ShapeData" where
  "mergeInit s0 =
     s0\<lparr>geometry := \<lparr>vertices = [], geom_type = ''multi_polygon'', mvertices = Some []\<rparr>\<rparr>"

definition merge :: "Polygon \<Rightarrow> Polygon outcome" where
  "merge c =
    (if length (targetShapes c) > 1 then
       (let sel = targetShapes c in
        case reduce mergeStep (map (store c) sel) (mergeInit (store c (hd sel))) of
          Inl e \<Rightarrow> Thrown e c
        | Inr newAnn \<Rightarrow>
            (let (r, c1) = observable newAnn c;
                 c2 = shapes_add r c1
             in Returned (fold shapes_delete sel c2)))
     else Returned c)"

text \<open>\<open>String(idx)\<close> for an array index: its decimal digits.\<close>

function toString :: "nat \<Rightarrow> string" where
  "toString n =
     (if n < 10 then [''0123456789'' ! n]
      else toString (n div 10) @ [''0123456789'' ! (n mod 10)])"
  by pat_completeness auto
termination
  by (relation "measure (\<lambda>n. n)") auto

declare toString.simps [simp del]

text \<open>
  \<open>Polygon.split\<close>: the \<open>forEach\<close> over the rings, from index \<open>idx\<close> on, and the method. The
  selected record is read again at every ring, as the spread \<open>...shape\<close> does.
\<close>

fun splitRings :: "ref \<Rightarrow> real list list \<Rightarrow> nat \<Rightarrow> Polygon \<Rightarrow> Polygon" where
  "splitRings shape [] idx c = c"
| "splitRings shape (v # vs) idx c =
     (let (r, c1) = observable
            ((store c shape)\<lparr>id_s := id_s (store c shape) @ toString idx,
                              geometry := \<lparr>vertices = v, geom_type = ''polygon'',
                                            mvertices = Some []\<rparr>\<rparr>) c
      in splitRings shape vs (Suc idx) (shapes_add r c1))"

definition split_shape :: "Polygon \<Rightarrow> Polygon outcome" where
  "split_shape c =
    (if length (targetShapes c) = 1 then
       (let shape = hd (targetShapes c) in
        if geom_type (geometry (store c shape)) = ''multi_polygon'' then
          (case mvertices (geometry (store c shape)) of
             None \<Rightarrow> Thrown TypeError c
           | Some mv \<Rightarrow> Returned (shapes_delete shape (splitRings shape mv 0 c)))
        else Returned c)
     else Returned c)"

text \<open>\<open>emit\<close>, \<open>console.warn\<close>, \<open>window.setTimeout\<close>, \<open>clearTimeout\<close>, and a timer firing.\<close>

definition emit :: "event2 \<Rightarrow> Polygon \<Rightarrow> Polygon" where
  "emit e s = s\<lparr>emitted := emitted s @ [e]\<rparr>"


definition setTimeout :: "nat \<Rightarrow> Polygon \<Rightarrow> int \<times> Polygon" where
  "setTimeout delay s =
     (int (Suc (timerCount s)),
      s\<lparr>timers := timers s @ [(Suc (timerCount s), delay)], timerCount := Suc (timerCount s)\<rparr>)"

definition clearTimeout :: "int \<Rightarrow> Polygon \<Rightarrow> Polygon" where
  "clearTimeout tid s = s\<lparr>timers := filter (\<lambda>t. int (fst t) \<noteq> tid) (timers s)\<rparr>"

definition dbClickTimeout :: "nat \<Rightarrow> Polygon \<Rightarrow> Polygon" where
  "dbClickTimeout tid s =
     (if tid \<in> fst ` set (timers s)
      then s\<lparr>timers := filter (\<lambda>t. fst t \<noteq> tid) (timers s), isDbClick := - 1\<rparr>
      else s)"

text \<open>
  \<open>PolygonsManager.createPolygon\<close>; \<open>newId\<close> is the string drawn from \<open>Math.random\<close>.
\<close>

definition createPolygon :: "Collaborators \<Rightarrow> string \<Rightarrow> Polygon \<Rightarrow> Polygon outcome" where
  "createPolygon env newId s =
    (case tmpShape s of
       None \<Rightarrow> Thrown TypeError s
     | Some shape \<Rightarrow>
         (let (shape1, d1) = popNode env shape (store s (data shape));
              s1 = s\<lparr>store := (store s)(data shape := d1), tmpShape := Some shape1\<rparr>
          in if \<not> isValid env shape1 d1 then Returned (s1\<lparr>tmpShape := None\<rparr>)
             else
               (let s2 = s1\<lparr>store := (store s1)(data shape1 := d1\<lparr>id_s := newId\<rparr>)\<rparr>;
                    s3 = shapes_add (data shape1) s2
                in Returned (s3\<lparr>tmpShape := None\<rparr>))))"

text \<open>The pointer event: \<open>originalEvent.buttons\<close> and the local position on the stage.\<close>

record PointerEvt =
  buttons :: nat
  localX :: real
  localY :: real

text \<open>\<open>PolygonsManager.onRootDown\<close>.\<close>

definition onRootDown ::
  "Collaborators \<Rightarrow> string \<Rightarrow> PointerEvt \<Rightarrow> Polygon \<Rightarrow> Polygon outcome" where
  "onRootDown env newId evt s =
    andThen (super_onRootDown env s) (\<lambda>s0.
      if mode_2d s0 = ''create'' \<and> buttons evt \<noteq> 2 then
        (let s1 = s0\<lparr>isCreating := True\<rparr>;
             mx = max (min (localX evt / imageWidth s1) 1) 0;
             my = max (min (localY evt / imageHeight s1) 1) 0;
             s2 = s1\<lparr>mouseX := mx, mouseY := my\<rparr>
         in case tmpShape s2 of
              Some shape \<Rightarrow>
                if isDbClick s2 \<ge> 0
                   \<and> (localX evt - lastX shape) * (localX evt - lastX shape)
                     + (localY evt - lastY shape) * (localY evt - lastY shape) < 2
                then createPolygon env newId (s2\<lparr>updated := False\<rparr>)
                else
                  (let s3 = clearTimeout (isDbClick s2) s2;
                       (shape1, d1) = pushNode env mx my shape (store s3 (data shape));
                       s4 = s3\<lparr>store := (store s3)(data shape := d1), tmpShape := Some shape1\<rparr>;
                       (tid, s5) = setTimeout 180 s4
                   in Returned (s5\<lparr>isDbClick := tid\<rparr>))
            | None \<Rightarrow>
                (let s3 = emit CreatingPolygon s2;
                     (r, s4) = observable
                        \<lparr>id_s = ''tmp'',
                         geometry = \<lparr>vertices = [mx, my, mx, my], geom_type = ''polygon'',
                                      mvertices = None\<rparr>,
                         color_s = ''red''\<rparr> s3
                 in Returned (s4\<lparr>tmpShape := Some (newPolygonShape env r (store s4 r))\<rparr>)))
      else Returned s0)"








definition set_vertices :: "ref \<Rightarrow> real list \<Rightarrow> Polygon \<Rightarrow> Polygon" where
  "set_vertices r vs s =
     s\<lparr>store := (store s)(r := (store s r)\<lparr>geometry := (geometry (store s r))\<lparr>vertices := vs\<rparr>\<rparr>)\<rparr>"









text \<open>
  The frame of a drag of record \<open>r\<close> that began in state \<open>s\<close>: in a later state \<open>t\<close> the cache,
  the events, the warnings, the selection and the mode are those of \<open>s\<close>, and the store
  differs from that of \<open>s\<close> at most in the vertices of \<open>r\<close>.
\<close>

definition drags :: "ref \<Rightarrow> Polygon \<Rightarrow> Polygon \<Rightarrow> bool" where
  "drags r s t =
     (cachedShape t = cachedShape s \<and> emitted t = emitted s \<and> warnings t = warnings s
      \<and> targetShapes t = targetShapes s \<and> mode_2d t = mode_2d s
      \<and> store t = store (set_vertices r (vertices (geometry (store t r))) s))"

text \<open>The rings a geometry contributes to a merge: what \<open>getFlattenVertices\<close> returns.\<close>

definition ringsOf :: "Geometry \<Rightarrow> real list list" where
  "ringsOf g = (case getFlattenVertices g of Inl e \<Rightarrow> [] | Inr rs \<Rightarrow> rs)"

text \<open>Records and an editor state for concrete evaluation: two triangles and a multi-polygon of two rings.\<close>

definition polyData :: "string \<Rightarrow> real list \<Rightarrow> ShapeData" where
  "polyData i vs = \<lparr>id_s = i,
     geometry = \<lparr>vertices = vs, geom_type = ''polygon'', mvertices = None\<rparr>,
     color_s = ''blue''\<rparr>"

definition multiData :: "string \<Rightarrow> real list list \<Rightarrow> ShapeData" where
  "multiData i rings = \<lparr>id_s = i,
     geometry = \<lparr>vertices = [], geom_type = ''multi_polygon'', mvertices = Some rings\<rparr>,
     color_s = ''green''\<rparr>"

definition canvasA :: "ref list \<Rightarrow> Polygon" where
  "canvasA sel =
     \<lparr>store = (\<lambda>r. if r = 0 then polyData ''a'' [0, 0, 1, 0, 0, 1]
                    else if r = 1 then polyData ''b'' [1, 1, 1, 0, 0, 1]
                    else multiData ''m'' [[0, 0, 1, 0, 1, 1], [0, 0, 1, 1, 0, 1]]),
      fresh = 3, shapes = [0, 1, 2], targetShapes = sel, mode_2d = ''update'',
      imageWidth = 100, imageHeight = 100, isDbClick = - 1, activeNodeIdx = - 1,
      isNodeTranslating = False, isMidNodeTranslating = False, isCreating = False,
      updated = False, mouseX = 0, mouseY = 0, tmpShape = None, cachedShape = None,
      emitted = [], warnings = [], timers = [], timerCount = 0\<rparr>"

text \<open>The record \<open>split\<close> builds for the ring \<open>v\<close> at index \<open>idx\<close>.\<close>

definition ringRecord :: "ShapeData \<Rightarrow> nat \<Rightarrow> real list \<Rightarrow> ShapeData" where
  "ringRecord shape idx v =
     shape\<lparr>id_s := id_s shape @ toString idx,
           geometry := \<lparr>vertices = v, geom_type = ''polygon'', mvertices = Some []\<rparr>\<rparr>"

text \<open>
  Modelled from the spec: stand-ins for the missing collaborators, used for concrete
  evaluation only. The inherited handlers do nothing; \<open>pushNode\<close> "appends a new duplicated
  cursor vertex"; \<open>popNode\<close> "removes the trailing duplicate"; \<open>removeNode\<close> deletes a vertex;
  a shape is valid when "a polygon ring has \<ge> 3 vertices (\<ge> 6 numbers)", here with no vertex
  repeated (the validity check is "implementation-defined"); \<open>insertMidNode\<close> "returns a new
  ring with the edge's midpoint inserted" between vertex \<open>i\<close> and the next one.
\<close>

fun pairs :: "real list \<Rightarrow> (real \<times> real) list" where
  "pairs (x # y # vs) = (x, y) # pairs vs"
| "pairs vs = []"

definition insertMidNodeA :: "real list \<Rightarrow> int \<Rightarrow> real list" where
  "insertMidNodeA vs i =
     (let n = length vs div 2; a = nat i; b = (a + 1) mod n
      in if 0 \<le> i \<and> a < n
         then take (2 * a + 2) vs
              @ [(vs ! (2 * a) + vs ! (2 * b)) / 2, (vs ! (2 * a + 1) + vs ! (2 * b + 1)) / 2]
              @ drop (2 * a + 2) vs
         else vs)"

definition envA :: Collaborators where
  "envA = \<lparr>super_onRootDown = Returned, super_onRootUp = Returned,
     pushNode = (\<lambda>x y shape d.
        (shape\<lparr>nodes := Suc (nodes shape)\<rparr>,
         d\<lparr>geometry := (geometry d)\<lparr>vertices := vertices (geometry d) @ [x, y]\<rparr>\<rparr>)),
     popNode = (\<lambda>shape d.
        (shape\<lparr>nodes := nodes shape - 1\<rparr>,
         d\<lparr>geometry := (geometry d)\<lparr>vertices := butlast (butlast (vertices (geometry d)))\<rparr>\<rparr>)),
     isValid = (\<lambda>shape d. 6 \<le> length (vertices (geometry d))
                          \<and> distinct (pairs (vertices (geometry d)))),
     newPolygonShape = (\<lambda>r d. \<lparr>data = r, lastX = 0, lastY = 0,
                                 nodes = length (vertices (geometry d)) div 2\<rparr>),
     super_onRootMove = Returned,
     removeNode = (\<lambda>i shape d.
        (shape\<lparr>nodes := nodes shape - 1\<rparr>,
         d\<lparr>geometry := (geometry d)\<lparr>vertices :=
            take (2 * nat i) (vertices (geometry d)) @ drop (2 * nat i + 2) (vertices (geometry d))\<rparr>\<rparr>)),
     insertMidNode = insertMidNodeA\<rparr>"




text \<open>
  An editor in \<open>create\<close> mode with a polygon under construction (three clicked vertices and the
  cursor duplicate, last click at pixel (50, 50) of a 100 by 100 image), with the given
  \<open>isDbClick\<close> and pending timers.
\<close>

definition tmpDataA :: ShapeData where
  "tmpDataA = \<lparr>id_s = ''tmp'',
      geometry = \<lparr>vertices = [0, 0, 1, 0, 1 / 2, 1 / 2, 1 / 2, 1 / 2], geom_type = ''polygon'',
                   mvertices = None\<rparr>,
      color_s = ''red''\<rparr>"

definition tmpShapeA :: PolygonShape where
  "tmpShapeA = \<lparr>data = 3, lastX = 50, lastY = 50, nodes = 4\<rparr>"

definition drawingA :: "int \<Rightarrow> (nat \<times> nat) list \<Rightarrow> Polygon" where
  "drawingA db ts =
     (canvasA [])\<lparr>store := (store (canvasA []))(3 := tmpDataA), fresh := 4,
        mode_2d := ''create'', isCreating := True, isDbClick := db,
        tmpShape := Some tmpShapeA, timers := ts, timerCount := 6\<rparr>"

section \<open>Facts about lists\<close>

lemma filter_removeAll:
  "filter P (removeAll a xs) = filter (\<lambda>r. r \<noteq> a \<and> P r) xs"
  by (induction xs) auto

lemma fold_removeAll: "fold removeAll xs ys = filter (\<lambda>l. l \<notin> set xs) ys"
proof (induction xs arbitrary: ys)
  case Nil
  then show ?case by simp
next
  case (Cons a xs)
  have "fold removeAll (a # xs) ys = fold removeAll xs (removeAll a ys)" by simp
  also have "\<dots> = filter (\<lambda>l. l \<notin> set xs) (removeAll a ys)" by (rule Cons.IH)
  also have "\<dots> = filter (\<lambda>l. l \<notin> set (a # xs)) ys" by (simp add: filter_removeAll)
  finally show ?case .
qed

section \<open>Heading normalisation\<close>

lemma normalizeAngle_range: "- pi < normalizeAngle a \<and> normalizeAngle a \<le> pi"
proof -
  define k where "k = \<lceil>(a - pi) / (2 * pi)\<rceil>"
  have pos: "0 < 2 * pi" by simp
  have up: "(a - pi) / (2 * pi) \<le> of_int k" unfolding k_def by (rule le_of_int_ceiling)
  have lo: "of_int k - 1 < (a - pi) / (2 * pi)" unfolding k_def by linarith
  from up pos have "a - pi \<le> of_int k * (2 * pi)" by (simp add: pos_divide_le_eq)
  moreover from lo pos have "(of_int k - 1) * (2 * pi) < a - pi" by (simp add: pos_less_divide_eq)
  ultimately show ?thesis unfolding normalizeAngle_def k_def [symmetric]
    by (simp add: algebra_simps)
qed

lemma normalizeAngle_fixed: "- pi < a \<Longrightarrow> a \<le> pi \<Longrightarrow> normalizeAngle a = a"
proof -
  assume lo: "- pi < a" and up: "a \<le> pi"
  have pos: "0 < 2 * pi" by simp
  have "\<lceil>(a - pi) / (2 * pi)\<rceil> = 0"
  proof (rule ceiling_unique)
    from lo pos show "of_int 0 - 1 < (a - pi) / (2 * pi)" by (simp add: pos_less_divide_eq)
    from up pos show "(a - pi) / (2 * pi) \<le> of_int 0" by (simp add: pos_divide_le_eq)
  qed
  then show ?thesis by (simp add: normalizeAngle_def)
qed

lemma heading_after_space:
  "defaultOnKeyDown '' '' (editorA h) =
     Returned ((editorA h)\<lparr>cuboids := (cuboids (editorA h))(0 := cuboidA (h - pi / 2)),
                           dispatched := [Update (Some 0)]\<rparr>)"
  by (simp add: defaultOnKeyDown_def editorA_def cuboidA_def dispatchEvent_def)

lemma heading_after_rotate:
  "heading (cuboids (rotate_c (editorA h)) 0) = normalizeAngle (h - pi / 2)"
  by (simp add: rotate_c_def editorA_def cuboidA_def)

lemma heading_after_swap:
  "heading (cuboids (swap (editorA h)) 0) = normalizeAngle (h - pi / 2)"
  by (simp add: swap_def editorA_def cuboidA_def)

lemma normalizeAngle_example: "normalizeAngle (- (3 * pi / 4) - pi / 2) = 3 * pi / 4"
proof -
  have pos: "0 < 2 * pi" by simp
  have "\<lceil>(- (3 * pi / 4) - pi / 2 - pi) / (2 * pi)\<rceil> = - 1"
  proof (rule ceiling_unique)
    from pos show "of_int (- 1) - 1 < (- (3 * pi / 4) - pi / 2 - pi) / (2 * pi)"
      by (simp add: pos_less_divide_eq)
    from pos show "(- (3 * pi / 4) - pi / 2 - pi) / (2 * pi) \<le> of_int (- 1)"
      by (simp add: pos_divide_le_eq)
  qed
  then show ?thesis by (simp add: normalizeAngle_def)
qed

text \<open>
  Claim C1. Pressing Space with a non-null edit target dispatches exactly one \<open>update\<close> event
  whose detail is the target, and the heading becomes the old heading minus \<pi>/2, normalised.
  The handler does dispatch that one event, but it stores the difference as it is, where
  \<open>rotate\<close> and \<open>swap\<close> pass it through \<open>normalizeAngle\<close>: from the normalised heading \<open>-3\<pi>/4\<close>
  the stored heading is \<open>-5\<pi>/4\<close>, not its canonical representative \<open>3\<pi>/4\<close>.
\<close>

theorem space_key_stores_unnormalized_heading:
  "- pi < - (3 * pi / 4) \<and> - (3 * pi / 4) \<le> pi
   \<and> dispatched (state_of (defaultOnKeyDown '' '' (editorA (- (3 * pi / 4))))) = [Update (Some 0)]
   \<and> heading (cuboids (state_of (defaultOnKeyDown '' '' (editorA (- (3 * pi / 4))))) 0)
       = - (5 * pi / 4)
   \<and> normalizeAngle (- (3 * pi / 4) - pi / 2) = 3 * pi / 4
   \<and> heading (cuboids (state_of (defaultOnKeyDown '' '' (editorA (- (3 * pi / 4))))) 0)
       \<noteq> normalizeAngle (- (3 * pi / 4) - pi / 2)"
proof -
  have pos: "0 < pi" by simp
  have h: "heading (cuboids (state_of (defaultOnKeyDown '' '' (editorA (- (3 * pi / 4))))) 0)
            = - (5 * pi / 4)"
    by (simp add: heading_after_space cuboidA_def)
  have d: "dispatched (state_of (defaultOnKeyDown '' '' (editorA (- (3 * pi / 4))))) = [Update (Some 0)]"
    by (simp add: heading_after_space)
  have ne: "- (5 * pi / 4) \<noteq> 3 * pi / 4" using pos by simp
  have r1: "- pi < - (3 * pi / 4)" using pos by simp
  have r2: "- (3 * pi / 4) \<le> pi" using pos by linarith
  from h ne have ne': "heading (cuboids (state_of (defaultOnKeyDown '' '' (editorA (- (3 * pi / 4))))) 0)
       \<noteq> normalizeAngle (- (3 * pi / 4) - pi / 2)"
    by (simp only: normalizeAngle_example) simp
  from r1 r2 d h normalizeAngle_example ne' show ?thesis by blast
qed

text \<open>
  Claim C2. After every mutating operation on a cuboid (Space key, \<open>rotate\<close>, \<open>swap\<close>, creation
  commit) the heading is stored normalised into a fixed half-open interval of length 2\<pi>.
  \<open>rotate\<close> and \<open>swap\<close> do store a heading in \<open>(-\<pi>, \<pi>]\<close>. The Space key does not: from \<open>-3\<pi>/4\<close>
  it stores a heading below \<open>-\<pi>\<close>, and whatever interval of length 2\<pi> starting at \<open>a\<close> is taken as
  canonical, the heading \<open>a + \<pi>/4\<close> inside it is sent below \<open>a\<close>.
\<close>

theorem space_key_breaks_heading_invariant:
  "(\<forall>h. - pi < heading (cuboids (rotate_c (editorA h)) 0)
        \<and> heading (cuboids (rotate_c (editorA h)) 0) \<le> pi)
   \<and> (\<forall>h. - pi < heading (cuboids (swap (editorA h)) 0)
        \<and> heading (cuboids (swap (editorA h)) 0) \<le> pi)
   \<and> heading (cuboids (state_of (defaultOnKeyDown '' '' (editorA (- (3 * pi / 4))))) 0) < - pi
   \<and> (\<forall>a. a < a + pi / 4 \<and> a + pi / 4 < a + 2 * pi
        \<and> heading (cuboids (state_of (defaultOnKeyDown '' '' (editorA (a + pi / 4)))) 0) < a)"
proof -
  have pos: "0 < pi" by simp
  have a: "\<forall>h. - pi < heading (cuboids (rotate_c (editorA h)) 0)
        \<and> heading (cuboids (rotate_c (editorA h)) 0) \<le> pi"
    by (simp add: heading_after_rotate normalizeAngle_range)
  have b: "\<forall>h. - pi < heading (cuboids (swap (editorA h)) 0)
        \<and> heading (cuboids (swap (editorA h)) 0) \<le> pi"
    by (simp add: heading_after_swap normalizeAngle_range)
  have c: "heading (cuboids (state_of (defaultOnKeyDown '' '' (editorA (- (3 * pi / 4))))) 0) < - pi"
    using pos by (simp add: heading_after_space cuboidA_def)
  have d: "\<forall>a. a < a + pi / 4 \<and> a + pi / 4 < a + 2 * pi
        \<and> heading (cuboids (state_of (defaultOnKeyDown '' '' (editorA (a + pi / 4)))) 0) < a"
    using pos by (simp add: heading_after_space cuboidA_def)
  from a b c d show ?thesis by blast
qed

section \<open>Mode switching\<close>

text \<open>What \<open>destroy\<close> takes back from the scene and from the DOM element.\<close>

lemma destroy_create_eq:
  "destroy_create c s =
     (c\<lparr>groundCursor := False, groundRect := None\<rparr>,
      s\<lparr>scene := filter (\<lambda>v. \<not> (groundCursor c \<and> v = Disc (ctrl_id c))
                            \<and> \<not> (groundRect c \<noteq> None \<and> v = Rect (ctrl_id c))) (scene s),
        domListeners := filter (\<lambda>l. l \<notin> set (eventListeners c)) (domListeners s)\<rparr>)"
proof -
  have r: "removeAll x ys = filter (\<lambda>v. v \<noteq> x) ys" for x :: visual and ys
    by (induction ys) auto
  show ?thesis
    by (cases "groundCursor c"; cases "groundRect c = None")
       (simp_all add: destroy_create_def Let_def fold_removeAll r)
qed

text \<open>What the teardown half of \<open>setMode\<close> leaves behind.\<close>

lemma restoreDefault_fields:
  "editMode (restoreDefault s) = None"
  "createMode (restoreDefault s) = None"
  "enabled (orbitControls (restoreDefault s))"
  "object (orbitControls (restoreDefault s)) = camera s"
  "\<not> navigating (restoreDefault s)"
  "\<not> editing (restoreDefault s)"
  "editTarget (restoreDefault s) = editTarget s"
  "cuboids (restoreDefault s) = cuboids s"
  "editableCuboids (restoreDefault s) = editableCuboids s"
  "nextRef (restoreDefault s) = nextRef s"
  "nextCtrl (restoreDefault s) = nextCtrl s"
  by (simp_all add: restoreDefault_def destroy_create_eq dispatchEvent_def Let_def
      split: option.split)

lemma restoreDefault_dispatched:
  "dispatched (restoreDefault s) =
     dispatched s @ (if editMode s \<noteq> None
                     then (if updatePending s then [Update (editTarget s)] else []) @ [Selection []]
                     else [])"
  by (simp add: restoreDefault_def destroy_create_eq dispatchEvent_def Let_def
      split: option.split)

lemma restoreDefault_idle:
  "editMode s = None \<Longrightarrow> dispatched (restoreDefault s) = dispatched s"
  by (simp add: restoreDefault_dispatched)

lemma restoreDefault_editDestroyed:
  "editDestroyed (restoreDefault s)
     = editDestroyed s @ (case editMode s of None \<Rightarrow> [] | Some t \<Rightarrow> [t])"
  by (simp add: restoreDefault_def destroy_create_eq dispatchEvent_def Let_def
      split: option.split)

lemma restoreDefault_create_destroyed:
  "createMode s = Some c \<Longrightarrow>
   scene (restoreDefault s)
     = filter (\<lambda>v. \<not> (groundCursor c \<and> v = Disc (ctrl_id c))
                   \<and> \<not> (groundRect c \<noteq> None \<and> v = Rect (ctrl_id c))) (scene s)
   \<and> domListeners (restoreDefault s)
     = filter (\<lambda>l. l \<notin> set (eventListeners c)) (domListeners s)"
  by (simp add: restoreDefault_def destroy_create_eq dispatchEvent_def Let_def
      split: option.split)

lemma restoreDefault_no_create:
  "createMode s = None \<Longrightarrow>
   scene (restoreDefault s) = scene s \<and> domListeners (restoreDefault s) = domListeners s"
  by (simp add: restoreDefault_def dispatchEvent_def Let_def split: option.split)

text \<open>After \<open>setMode\<close>, at most one sub-controller is active.\<close>

lemma setMode_exclusive:
  "editMode (state_of (setMode m s)) = None \<or> createMode (state_of (setMode m s)) = None"
  by (simp add: setMode_def Let_def restoreDefault_fields dispatchEvent_def
      new_CreateModeController_def split: option.split)

text \<open>
  Claim C6. Assigning \<open>editTarget\<close> a non-null cuboid that is not a member of
  \<open>editableCuboids\<close> throws at once, the editor untouched; \<open>setMode('edit')\<close> while \<open>editTarget\<close> is
  null throws too.
\<close>

theorem edit_precondition_violations_throw:
  "(c \<notin> set (editableCuboids s) \<longrightarrow>
      set_editTarget (Some c) s = Thrown (Error ''target is not an existing annotation'') s)
   \<and> (editTarget s = None \<longrightarrow>
      (\<exists>s'. setMode (Some ''edit'') s
              = Thrown (Error ''cannot go into edit mode without a target'') s'))"
  by (simp add: set_editTarget_def setMode_def Let_def restoreDefault_fields)

theorem edit_precondition_violations_throw_witness:
  "7 \<notin> set (editableCuboids (editorA 0))
   \<and> set_editTarget (Some 7) (editorA 0)
       = Thrown (Error ''target is not an existing annotation'') (editorA 0)
   \<and> editTarget ((editorA 0)\<lparr>editMode := None, editTarget := None\<rparr>) = None
   \<and> (\<exists>s'. setMode (Some ''edit'') ((editorA 0)\<lparr>editMode := None, editTarget := None\<rparr>)
              = Thrown (Error ''cannot go into edit mode without a target'') s')"
proof -
  have a: "7 \<notin> set (editableCuboids (editorA 0))" by (simp add: editorA_def)
  have b: "editTarget ((editorA 0)\<lparr>editMode := None, editTarget := None\<rparr>) = None" by simp
  from a b
    edit_precondition_violations_throw [of 7 "editorA 0"]
    edit_precondition_violations_throw [of 7 "(editorA 0)\<lparr>editMode := None, editTarget := None\<rparr>"]
  show ?thesis by blast
qed

text \<open>
  Claim C7. Every call of \<open>setMode\<close> first tears the current mode down, whatever mode is asked
  for. An active edit sub-controller is destroyed (its \<open>destroy\<close> is called and the field
  cleared), a pending update being flushed as an \<open>update\<close> event before the empty \<open>selection\<close>
  event that ends the teardown. An active create sub-controller is destroyed: its cursor
  disc and rectangle leave the scene, every listener it registered leaves the DOM element
  (the other listeners stay), and the field is cleared. Orbit controls are enabled. Whatever
  establishing the new mode dispatches comes after, and \<open>setMode('edit')\<close> without a target
  throws in the torn-down state.
\<close>

theorem setMode_tears_down_first:
  "editMode (restoreDefault s) = None
   \<and> createMode (restoreDefault s) = None
   \<and> enabled (orbitControls (restoreDefault s))
   \<and> editDestroyed (restoreDefault s)
       = editDestroyed s @ (case editMode s of None \<Rightarrow> [] | Some t \<Rightarrow> [t])
   \<and> (createMode s = Some cc \<longrightarrow>
        scene (restoreDefault s)
          = filter (\<lambda>v. \<not> (groundCursor cc \<and> v = Disc (ctrl_id cc))
                        \<and> \<not> (groundRect cc \<noteq> None \<and> v = Rect (ctrl_id cc))) (scene s)
        \<and> domListeners (restoreDefault s)
          = filter (\<lambda>l. l \<notin> set (eventListeners cc)) (domListeners s)
        \<and> (\<forall>l\<in>set (eventListeners cc). l \<notin> set (domListeners (restoreDefault s))))
   \<and> (createMode s = None \<longrightarrow>
        scene (restoreDefault s) = scene s \<and> domListeners (restoreDefault s) = domListeners s)
   \<and> dispatched (restoreDefault s) =
       dispatched s @ (if editMode s \<noteq> None
                       then (if updatePending s then [Update (editTarget s)] else []) @ [Selection []]
                       else [])
   \<and> (\<exists>rest. dispatched (state_of (setMode m s)) = dispatched (restoreDefault s) @ rest)
   \<and> (m = Some ''edit'' \<and> editTarget s = None \<longrightarrow>
        setMode m s = Thrown (Error ''cannot go into edit mode without a target'') (restoreDefault s))
   \<and> (m = Some ''edit'' \<and> editTarget s = Some c \<longrightarrow>
        setMode m s = Returned ((restoreDefault s)
            \<lparr>editMode := Some c, dispatched := dispatched (restoreDefault s) @ [Selection [c]]\<rparr>))
   \<and> (m = Some ''create'' \<longrightarrow>
        setMode m s = Returned ((restoreDefault s)
            \<lparr>orbitControls := \<lparr>object = camera s, enabled = False\<rparr>,
             nextCtrl := Suc (nextCtrl s),
             scene := scene (restoreDefault s) @ [Disc (nextCtrl s)],
             domListeners := domListeners (restoreDefault s)
                @ [(''mousedown'', Creator (nextCtrl s)), (''mousemove'', Creator (nextCtrl s)),
                   (''mouseup'', Creator (nextCtrl s))],
             createMode := Some \<lparr>ctrl_id = nextCtrl s, groundCursor = True, groundRect = None,
                eventListeners =
                  [(''mousedown'', Creator (nextCtrl s)), (''mousemove'', Creator (nextCtrl s)),
                   (''mouseup'', Creator (nextCtrl s))]\<rparr>\<rparr>))
   \<and> (m \<noteq> Some ''edit'' \<and> m \<noteq> Some ''create'' \<longrightarrow> setMode m s = Returned (restoreDefault s))"
proof -
  have ev: "\<exists>rest. dispatched (state_of (setMode m s)) = dispatched (restoreDefault s) @ rest"
    by (simp add: setMode_def Let_def dispatchEvent_def new_CreateModeController_def
        split: option.split)
  have thr: "m = Some ''edit'' \<and> editTarget s = None \<longrightarrow>
        setMode m s = Thrown (Error ''cannot go into edit mode without a target'') (restoreDefault s)"
    by (simp add: setMode_def Let_def restoreDefault_fields)
  have ed: "m = Some ''edit'' \<and> editTarget s = Some c \<longrightarrow>
        setMode m s = Returned ((restoreDefault s)
            \<lparr>editMode := Some c, dispatched := dispatched (restoreDefault s) @ [Selection [c]]\<rparr>)"
    by (simp add: setMode_def Let_def restoreDefault_fields dispatchEvent_def)
  have oc: "orbitControls (restoreDefault s) = \<lparr>object = camera s, enabled = True\<rparr>"
    using restoreDefault_fields(3,4) [of s] by (cases "orbitControls (restoreDefault s)") simp
  have cr: "m = Some ''create'' \<longrightarrow>
        setMode m s = Returned ((restoreDefault s)
            \<lparr>orbitControls := \<lparr>object = camera s, enabled = False\<rparr>,
             nextCtrl := Suc (nextCtrl s),
             scene := scene (restoreDefault s) @ [Disc (nextCtrl s)],
             domListeners := domListeners (restoreDefault s)
                @ [(''mousedown'', Creator (nextCtrl s)), (''mousemove'', Creator (nextCtrl s)),
                   (''mouseup'', Creator (nextCtrl s))],
             createMode := Some \<lparr>ctrl_id = nextCtrl s, groundCursor = True, groundRect = None,
                eventListeners =
                  [(''mousedown'', Creator (nextCtrl s)), (''mousemove'', Creator (nextCtrl s)),
                   (''mouseup'', Creator (nextCtrl s))]\<rparr>\<rparr>)"
    by (simp add: setMode_def Let_def oc new_CreateModeController_def restoreDefault_fields)
  have ot: "m \<noteq> Some ''edit'' \<and> m \<noteq> Some ''create'' \<longrightarrow> setMode m s = Returned (restoreDefault s)"
    by (simp add: setMode_def Let_def)
  have de: "createMode s = Some cc \<longrightarrow>
        scene (restoreDefault s)
          = filter (\<lambda>v. \<not> (groundCursor cc \<and> v = Disc (ctrl_id cc))
                        \<and> \<not> (groundRect cc \<noteq> None \<and> v = Rect (ctrl_id cc))) (scene s)
        \<and> domListeners (restoreDefault s)
          = filter (\<lambda>l. l \<notin> set (eventListeners cc)) (domListeners s)
        \<and> (\<forall>l\<in>set (eventListeners cc). l \<notin> set (domListeners (restoreDefault s)))"
  proof
    assume a: "createMode s = Some cc"
    from restoreDefault_create_destroyed [OF a]
    show "scene (restoreDefault s)
          = filter (\<lambda>v. \<not> (groundCursor cc \<and> v = Disc (ctrl_id cc))
                        \<and> \<not> (groundRect cc \<noteq> None \<and> v = Rect (ctrl_id cc))) (scene s)
        \<and> domListeners (restoreDefault s)
          = filter (\<lambda>l. l \<notin> set (eventListeners cc)) (domListeners s)
        \<and> (\<forall>l\<in>set (eventListeners cc). l \<notin> set (domListeners (restoreDefault s)))"
      by simp
  qed
  have nc: "createMode s = None \<longrightarrow>
        scene (restoreDefault s) = scene s \<and> domListeners (restoreDefault s) = domListeners s"
    using restoreDefault_no_create [of s] by blast
  from ev thr ed cr ot de nc restoreDefault_fields(1,2,3) [of s] restoreDefault_dispatched [of s]
    restoreDefault_editDestroyed [of s]
  show ?thesis by blast
qed

theorem setMode_tears_down_first_witness:
  "setMode (Some ''edit'') ((editorA 0)\<lparr>updatePending := True, editTarget := None\<rparr>)
     = Thrown (Error ''cannot go into edit mode without a target'')
         (restoreDefault ((editorA 0)\<lparr>updatePending := True, editTarget := None\<rparr>))
   \<and> dispatched (restoreDefault ((editorA 0)\<lparr>updatePending := True, editTarget := None\<rparr>))
       = [Update None, Selection []]
   \<and> editDestroyed (restoreDefault ((editorA 0)\<lparr>updatePending := True, editTarget := None\<rparr>))
       = [0]
   \<and> editMode (restoreDefault ((editorA 0)\<lparr>updatePending := True, editTarget := None\<rparr>)) = None
   \<and> enabled (orbitControls (restoreDefault ((editorA 0)\<lparr>updatePending := True, editTarget := None\<rparr>)))
   \<and> setMode (Some ''edit'') editorSelecting
       = Thrown (Error ''cannot go into edit mode without a target'') (restoreDefault editorSelecting)
   \<and> createMode (restoreDefault editorSelecting) = None
   \<and> scene editorSelecting = [Rect 0]
   \<and> scene (restoreDefault editorSelecting) = []
   \<and> domListeners (restoreDefault editorSelecting)
       = [(''mousemove'', Manager), (''mouseup'', Manager)]
   \<and> setMode (Some ''edit'') (editorA 0)
       = Returned ((restoreDefault (editorA 0))
            \<lparr>editMode := Some 0,
             dispatched := dispatched (restoreDefault (editorA 0)) @ [Selection [0]]\<rparr>)
   \<and> dispatched (restoreDefault (editorA 0)) = [Selection []]
   \<and> (\<exists>s'. setMode (Some ''create'') (editorA 0) = Returned s'
         \<and> createMode s' = Some \<lparr>ctrl_id = 1, groundCursor = True, groundRect = None,
               eventListeners = [(''mousedown'', Creator 1), (''mousemove'', Creator 1),
                                 (''mouseup'', Creator 1)]\<rparr>
         \<and> scene s' = [Disc 1]
         \<and> domListeners s' = [(''mousemove'', Manager), (''mouseup'', Manager),
               (''mousedown'', Creator 1), (''mousemove'', Creator 1), (''mouseup'', Creator 1)])
   \<and> setMode None (editorA 0) = Returned (restoreDefault (editorA 0))"
proof -
  let ?p = "(editorA 0)\<lparr>updatePending := True, editTarget := None\<rparr>"
  let ?q = editorSelecting
  have h1: "editTarget ?p = None" by simp
  have h2: "editTarget (editorA 0) = Some 0" by (simp add: editorA_def)
  have h3: "editMode ?p = Some 0 \<and> updatePending ?p \<and> editDestroyed ?p = []"
    by (simp add: editorA_def)
  have h4: "editMode (editorA 0) \<noteq> None \<and> \<not> updatePending (editorA 0) \<and> dispatched (editorA 0) = []"
    by (simp add: editorA_def)
  have h5: "dispatched ?p = []" by (simp add: editorA_def)
  have h6: "createMode (editorA 0) = None \<and> scene (editorA 0) = [] \<and> nextCtrl (editorA 0) = 1
      \<and> domListeners (editorA 0) = [(''mousemove'', Manager), (''mouseup'', Manager)]"
    by (simp add: editorA_def)
  have q1: "editTarget ?q = None" "createMode ?q = Some creatorA" "scene ?q = [Rect 0]"
    "domListeners ?q = [(''mousemove'', Manager), (''mouseup'', Manager),
                        (''mousedown'', Creator 0), (''mousemove'', Creator 0),
                        (''mouseup'', Creator 0)]"
    by (simp_all add: editorSelecting_def)
  have q2: "ctrl_id creatorA = 0" "\<not> groundCursor creatorA" "groundRect creatorA \<noteq> None"
    "eventListeners creatorA = [(''mousedown'', Creator 0), (''mousemove'', Creator 0),
                        (''mouseup'', Creator 0)]"
    by (simp_all add: creatorA_def)
  have n: "(None :: string option) \<noteq> Some ''edit'' \<and> (None :: string option) \<noteq> Some ''create''"
    by simp
  have a: "setMode (Some ''edit'') ?p
     = Thrown (Error ''cannot go into edit mode without a target'') (restoreDefault ?p)"
    using setMode_tears_down_first [of ?p creatorA "Some ''edit''" 0] h1 by blast
  have b: "dispatched (restoreDefault ?p) = [Update None, Selection []]"
    using setMode_tears_down_first [of ?p creatorA "Some ''edit''" 0] h1 h3 h5 by simp
  have b': "editDestroyed (restoreDefault ?p) = [0]"
    using setMode_tears_down_first [of ?p creatorA "Some ''edit''" 0] h3 by simp
  have c: "editMode (restoreDefault ?p) = None \<and> enabled (orbitControls (restoreDefault ?p))"
    using setMode_tears_down_first [of ?p creatorA "Some ''edit''" 0] by blast
  have t: "setMode (Some ''edit'') ?q
       = Thrown (Error ''cannot go into edit mode without a target'') (restoreDefault ?q)"
    using setMode_tears_down_first [of ?q creatorA "Some ''edit''" 0] q1(1) by blast
  have t1: "createMode (restoreDefault ?q) = None"
    using setMode_tears_down_first [of ?q creatorA "Some ''edit''" 0] by blast
  from setMode_tears_down_first [of ?q creatorA "Some ''edit''" 0] q1(2)
  have t2: "scene (restoreDefault ?q)
          = filter (\<lambda>v. \<not> (groundCursor creatorA \<and> v = Disc (ctrl_id creatorA))
                        \<and> \<not> (groundRect creatorA \<noteq> None \<and> v = Rect (ctrl_id creatorA))) (scene ?q)"
    and t3: "domListeners (restoreDefault ?q)
          = filter (\<lambda>l. l \<notin> set (eventListeners creatorA)) (domListeners ?q)"
    by blast+
  have t2': "scene (restoreDefault ?q) = []" using t2 by (simp add: q1 q2)
  have t3': "domListeners (restoreDefault ?q) = [(''mousemove'', Manager), (''mouseup'', Manager)]"
    using t3 by (simp add: q1 q2)
  have d: "setMode (Some ''edit'') (editorA 0)
       = Returned ((restoreDefault (editorA 0))
            \<lparr>editMode := Some 0,
             dispatched := dispatched (restoreDefault (editorA 0)) @ [Selection [0]]\<rparr>)"
    using setMode_tears_down_first [of "editorA 0" creatorA "Some ''edit''" 0] h2 by blast
  have e: "dispatched (restoreDefault (editorA 0)) = [Selection []]"
    using setMode_tears_down_first [of "editorA 0" creatorA "Some ''edit''" 0] h4 by simp
  from setMode_tears_down_first [of "editorA 0" creatorA "Some ''create''" 0] h6
  have f0: "scene (restoreDefault (editorA 0)) = []
      \<and> domListeners (restoreDefault (editorA 0)) = [(''mousemove'', Manager), (''mouseup'', Manager)]"
    by simp
  from setMode_tears_down_first [of "editorA 0" creatorA "Some ''create''" 0]
  have f1: "setMode (Some ''create'') (editorA 0) = Returned ((restoreDefault (editorA 0))
            \<lparr>orbitControls := \<lparr>object = camera (editorA 0), enabled = False\<rparr>,
             nextCtrl := Suc (nextCtrl (editorA 0)),
             scene := scene (restoreDefault (editorA 0)) @ [Disc (nextCtrl (editorA 0))],
             domListeners := domListeners (restoreDefault (editorA 0))
                @ [(''mousedown'', Creator (nextCtrl (editorA 0))),
                   (''mousemove'', Creator (nextCtrl (editorA 0))),
                   (''mouseup'', Creator (nextCtrl (editorA 0)))],
             createMode := Some \<lparr>ctrl_id = nextCtrl (editorA 0), groundCursor = True,
                groundRect = None,
                eventListeners =
                  [(''mousedown'', Creator (nextCtrl (editorA 0))),
                   (''mousemove'', Creator (nextCtrl (editorA 0))),
                   (''mouseup'', Creator (nextCtrl (editorA 0)))]\<rparr>\<rparr>)"
    by blast
  have f: "\<exists>s'. setMode (Some ''create'') (editorA 0) = Returned s'
         \<and> createMode s' = Some \<lparr>ctrl_id = 1, groundCursor = True, groundRect = None,
               eventListeners = [(''mousedown'', Creator 1), (''mousemove'', Creator 1),
                                 (''mouseup'', Creator 1)]\<rparr>
         \<and> scene s' = [Disc 1]
         \<and> domListeners s' = [(''mousemove'', Manager), (''mouseup'', Manager),
               (''mousedown'', Creator 1), (''mousemove'', Creator 1), (''mouseup'', Creator 1)]"
    by (simp add: f1 f0 h6)
  have g: "setMode None (editorA 0) = Returned (restoreDefault (editorA 0))"
    using setMode_tears_down_first [of "editorA 0" creatorA None 0] n by blast
  from a b b' c t t1 q1(3) t2' t3' d e f g show ?thesis by blast
qed

section \<open>Committing a create gesture\<close>

text \<open>
  Claim C9. When the create gesture commits (pointer-up in the \<open>selecting\<close> state), the new
  cuboid becomes the edit target and the editor is in \<open>edit\<close> mode; the host receives a
  \<open>selection\<close> event holding exactly the new cuboid, then the \<open>create\<close> event with the new
  record.
\<close>

theorem create_commit_selects_new_cuboid:
  assumes "createMode s = Some c" and "\<not> groundCursor c" and "groundRect c = Some rect"
    and "editMode s = None"
  shows "\<exists>s'. onMouseUp fit newId s = Returned s'
     \<and> editTarget s' = Some (nextRef s)
     \<and> editMode s' = Some (nextRef s)
     \<and> mode s' = Some ''edit''
     \<and> createMode s' = None
     \<and> editableCuboids s' = set_add (nextRef s) (editableCuboids s)
     \<and> id_c (cuboids s' (nextRef s)) = newId
     \<and> dispatched s' = dispatched s @ [Selection [nextRef s], Create (nextRef s)]"
proof -
  have st: "state c = ''selecting''" using assms(2,3) by (simp add: state_def)
  show ?thesis
    using assms st
    by (simp add: onMouseUp_def onCreate_def setMode_def Let_def annotations_add_def
        destroy_create_eq restoreDefault_fields restoreDefault_dispatched dispatchEvent_def
        mode_def)
qed

theorem create_commit_selects_new_cuboid_witness:
  "createMode editorSelecting = Some creatorA
   \<and> state creatorA = ''selecting''
   \<and> editMode editorSelecting = None
   \<and> nextRef editorSelecting = 1
   \<and> (\<exists>s'. onMouseUp fitFlat ''k3x'' editorSelecting = Returned s'
         \<and> editTarget s' = Some 1 \<and> mode s' = Some ''edit''
         \<and> editableCuboids s' = [0, 1]
         \<and> dispatched s' = [Selection [1], Create 1])"
proof -
  let ?r = "\<lparr>rect_position = (1, 3 / 2, 0), rect_scale = (2, - 3), rect_rotation_z = (0::real)\<rparr>"
  have a: "createMode editorSelecting = Some creatorA" by (simp add: editorSelecting_def)
  have b: "\<not> groundCursor creatorA" by (simp add: creatorA_def)
  have c: "groundRect creatorA = Some ?r" by (simp add: creatorA_def)
  have c': "state creatorA = ''selecting''" by (simp add: state_def creatorA_def)
  have d: "editMode editorSelecting = None" by (simp add: editorSelecting_def)
  have e: "nextRef editorSelecting = 1" by (simp add: editorSelecting_def editorA_def)
  have f: "editableCuboids editorSelecting = [0]" by (simp add: editorSelecting_def editorA_def)
  have g: "dispatched editorSelecting = []" by (simp add: editorSelecting_def editorA_def)
  from create_commit_selects_new_cuboid [OF a b c d, of fitFlat "''k3x''"]
  obtain s' where s': "onMouseUp fitFlat ''k3x'' editorSelecting = Returned s'"
     "editTarget s' = Some (nextRef editorSelecting)" "mode s' = Some ''edit''"
     "editableCuboids s' = set_add (nextRef editorSelecting) (editableCuboids editorSelecting)"
     "dispatched s' = dispatched editorSelecting
        @ [Selection [nextRef editorSelecting], Create (nextRef editorSelecting)]"
    by blast
  from s' e f g have "onMouseUp fitFlat ''k3x'' editorSelecting = Returned s'
         \<and> editTarget s' = Some 1 \<and> mode s' = Some ''edit''
         \<and> editableCuboids s' = [0, 1]
         \<and> dispatched s' = [Selection [1], Create 1]"
    by (simp add: set_add_def)
  with a c' d e show ?thesis by blast
qed

section \<open>Merging and splitting polygons\<close>

lemma reduce_mergeStep:
  "mvertices (geometry acc) = Some pm \<Longrightarrow>
   (\<forall>x\<in>set xs. geom_type (geometry x) = ''multi_polygon'' \<longrightarrow> mvertices (geometry x) \<noteq> None) \<Longrightarrow>
   reduce mergeStep xs acc =
     Inr (acc\<lparr>id_s := id_s acc @ concat (map id_s xs),
              geometry := (geometry acc)\<lparr>mvertices := Some (pm @ concat (map (\<lambda>x. ringsOf (geometry x)) xs))\<rparr>\<rparr>)"
proof (induction xs arbitrary: acc pm)
  case Nil
  then show ?case by simp
next
  case (Cons x xs)
  from Cons.prems(2) have "\<exists>cv. getFlattenVertices (geometry x) = Inr cv"
    by (cases "geom_type (geometry x) = ''multi_polygon''") (auto simp: getFlattenVertices_def)
  then obtain cv where cv: "getFlattenVertices (geometry x) = Inr cv" ..
  then have r: "ringsOf (geometry x) = cv" by (simp add: ringsOf_def)
  let ?acc = "acc\<lparr>id_s := id_s acc @ id_s x,
                   geometry := (geometry acc)\<lparr>mvertices := Some (pm @ cv)\<rparr>\<rparr>"
  have step: "mergeStep acc x = Inr ?acc" using cv Cons.prems(1) by (simp add: mergeStep_def)
  have "reduce mergeStep xs ?acc = Inr (?acc\<lparr>id_s := id_s ?acc @ concat (map id_s xs),
              geometry := (geometry ?acc)\<lparr>mvertices := Some ((pm @ cv) @ concat (map (\<lambda>x. ringsOf (geometry x)) xs))\<rparr>\<rparr>)"
    by (rule Cons.IH) (use Cons.prems in simp_all)
  with step r show ?case by simp
qed

lemma fold_shapes_delete:
  "fold shapes_delete sel c = c\<lparr>shapes := filter (\<lambda>r. r \<notin> set sel) (shapes c)\<rparr>"
proof (induction sel arbitrary: c)
  case Nil
  then show ?case by simp
next
  case (Cons a sel)
  have "fold shapes_delete (a # sel) c = fold shapes_delete sel (shapes_delete a c)" by simp
  also have "\<dots> = (shapes_delete a c)\<lparr>shapes := filter (\<lambda>r. r \<notin> set sel) (shapes (shapes_delete a c))\<rparr>"
    by (rule Cons.IH)
  also have "\<dots> = c\<lparr>shapes := filter (\<lambda>r. r \<notin> set (a # sel)) (shapes c)\<rparr>"
    by (simp add: shapes_delete_def set_delete_def filter_removeAll)
  finally show ?case .
qed

lemma length_filter_out:
  assumes "distinct xs" "distinct sel" "set sel \<subseteq> set xs"
  shows "length (filter (\<lambda>r. r \<notin> set sel) xs) + length sel = length xs"
proof -
  have "set (filter (\<lambda>r. r \<in> set sel) xs) = set sel" using assms(3) by auto
  moreover have "distinct (filter (\<lambda>r. r \<in> set sel) xs)" using assms(1) by simp
  ultimately have "length (filter (\<lambda>r. r \<in> set sel) xs) = length sel"
    using assms(2) by (metis distinct_card)
  moreover have "length (filter (\<lambda>r. r \<in> set sel) xs) + length (filter (\<lambda>r. \<not> r \<in> set sel) xs) = length xs"
    by (rule sum_length_filter_compl)
  ultimately show ?thesis by simp
qed

lemma length_concat_singletons:
  "(\<forall>x\<in>set xs. length (f x) = 1) \<Longrightarrow> length (concat (map f xs)) = length xs"
  by (induction xs) auto

text \<open>
  Claim C3. For a selection of k \<ge> 2 shapes of the annotation set, \<open>merge\<close> adds exactly one
  new record, of type \<open>multi_polygon\<close>, whose \<open>mvertices\<close> are the rings of the selected shapes
  in selection order (one ring for a plain shape, the rings of a multi-polygon flattened; k
  rings when all are plain), with an id built from the ids of the inputs, and deletes the k
  originals: the set shrinks by k - 1. No other record is touched. The selection is a set of
  members of the annotation set, every member is an allocated reference (below the
  allocation counter), and a selected multi-polygon has its \<open>mvertices\<close>.
\<close>

theorem merge_replaces_selection:
  assumes k: "2 \<le> length (targetShapes c)"
    and dsel: "distinct (targetShapes c)"
    and sub: "set (targetShapes c) \<subseteq> set (shapes c)"
    and dsh: "distinct (shapes c)"
    and fr: "\<forall>r\<in>set (shapes c). r < fresh c"
    and mv: "\<forall>r\<in>set (targetShapes c). geom_type (geometry (store c r)) = ''multi_polygon''
               \<longrightarrow> mvertices (geometry (store c r)) \<noteq> None"
  shows "\<exists>c'. merge c = Returned c'
    \<and> fresh c \<notin> set (shapes c)
    \<and> shapes c' = filter (\<lambda>r. r \<notin> set (targetShapes c)) (shapes c) @ [fresh c]
    \<and> length (shapes c') + length (targetShapes c) = length (shapes c) + 1
    \<and> (\<forall>r. r \<noteq> fresh c \<longrightarrow> store c' r = store c r)
    \<and> geom_type (geometry (store c' (fresh c))) = ''multi_polygon''
    \<and> mvertices (geometry (store c' (fresh c)))
        = Some (concat (map (\<lambda>r. ringsOf (geometry (store c r))) (targetShapes c)))
    \<and> ((\<forall>r\<in>set (targetShapes c). geom_type (geometry (store c r)) \<noteq> ''multi_polygon'')
        \<longrightarrow> length (concat (map (\<lambda>r. ringsOf (geometry (store c r))) (targetShapes c)))
             = length (targetShapes c))
    \<and> id_s (store c' (fresh c))
        = id_s (store c (hd (targetShapes c)))
          @ concat (map (\<lambda>r. id_s (store c r)) (targetShapes c))"
proof -
  let ?sel = "targetShapes c"
  let ?s0 = "store c (hd ?sel)"
  let ?rings = "concat (map (\<lambda>r. ringsOf (geometry (store c r))) ?sel)"
  let ?ids = "concat (map (\<lambda>r. id_s (store c r)) ?sel)"
  let ?new = "(mergeInit ?s0)\<lparr>id_s := id_s (mergeInit ?s0) @ concat (map id_s (map (store c) ?sel)),
      geometry := (geometry (mergeInit ?s0))\<lparr>mvertices :=
         Some ([] @ concat (map (\<lambda>x. ringsOf (geometry x)) (map (store c) ?sel)))\<rparr>\<rparr>"
  have red: "reduce mergeStep (map (store c) ?sel) (mergeInit ?s0) = Inr ?new"
    by (rule reduce_mergeStep) (use mv in \<open>simp_all add: mergeInit_def\<close>)
  have notin: "fresh c \<notin> set (shapes c)" using fr by auto
  then have notsel: "fresh c \<notin> set ?sel" using sub by auto
  let ?c' = "c\<lparr>store := (store c)(fresh c := ?new), fresh := Suc (fresh c),
               shapes := filter (\<lambda>r. r \<notin> set ?sel) (shapes c) @ [fresh c]\<rparr>"
  have m: "merge c = Returned ?c'"
    using k red notin notsel
    by (simp add: merge_def Let_def observable_def shapes_add_def set_add_def fold_shapes_delete)
  have len: "length (shapes ?c') + length ?sel = length (shapes c) + 1"
    using length_filter_out [OF dsh dsel sub] by simp
  have plain: "(\<forall>r\<in>set ?sel. geom_type (geometry (store c r)) \<noteq> ''multi_polygon'')
        \<longrightarrow> length ?rings = length ?sel"
  proof
    assume a: "\<forall>r\<in>set ?sel. geom_type (geometry (store c r)) \<noteq> ''multi_polygon''"
    then have "\<forall>r\<in>set ?sel. length (ringsOf (geometry (store c r))) = 1"
      by (simp add: ringsOf_def getFlattenVertices_def)
    then show "length ?rings = length ?sel" by (rule length_concat_singletons)
  qed
  have st: "\<forall>r. r \<noteq> fresh c \<longrightarrow> store ?c' r = store c r" by simp
  have g: "geom_type (geometry (store ?c' (fresh c))) = ''multi_polygon''"
    by (simp add: mergeInit_def)
  have mvs: "mvertices (geometry (store ?c' (fresh c))) = Some ?rings"
    by (simp add: o_def)
  have ids: "id_s (store ?c' (fresh c)) = id_s ?s0 @ ?ids"
    by (simp add: mergeInit_def o_def)
  have sh: "shapes ?c' = filter (\<lambda>r. r \<notin> set ?sel) (shapes c) @ [fresh c]" by simp
  from m notin sh len st g mvs plain ids show ?thesis by blast
qed

text \<open>
  Claim C10. \<open>merge\<close> with at most one shape selected, and \<open>split\<close> with a selection that is
  not exactly one shape of type \<open>multi_polygon\<close>, return with the whole state as it was: the
  set, the store of records and everything else.
\<close>

theorem merge_split_guards:
  "(length (targetShapes c) \<le> 1 \<longrightarrow> merge c = Returned c)
   \<and> ((\<nexists>r. targetShapes c = [r] \<and> geom_type (geometry (store c r)) = ''multi_polygon'')
       \<longrightarrow> split_shape c = Returned c)"
proof -
  have a: "length (targetShapes c) \<le> 1 \<longrightarrow> merge c = Returned c"
    by (simp add: merge_def)
  have b: "(\<nexists>r. targetShapes c = [r] \<and> geom_type (geometry (store c r)) = ''multi_polygon'')
       \<longrightarrow> split_shape c = Returned c"
  proof
    assume n: "\<nexists>r. targetShapes c = [r] \<and> geom_type (geometry (store c r)) = ''multi_polygon''"
    show "split_shape c = Returned c"
    proof (cases "length (targetShapes c) = 1")
      case True
      then obtain r where r: "targetShapes c = [r]" by (cases "targetShapes c") auto
      with n have "geom_type (geometry (store c r)) \<noteq> ''multi_polygon''" by blast
      with r show ?thesis by (simp add: split_shape_def)
    next
      case False
      then show ?thesis by (simp add: split_shape_def)
    qed
  qed
  from a b show ?thesis by blast
qed

lemma splitRings_fresh: "fresh (splitRings r vs idx c) = fresh c + length vs"
  by (induction vs arbitrary: idx c) (simp_all add: observable_def shapes_add_def)

lemma splitRings_old:
  "x < fresh c \<Longrightarrow> store (splitRings r vs idx c) x = store c x"
  by (induction vs arbitrary: idx c) (simp_all add: observable_def shapes_add_def)

lemma splitRings_shapes:
  "\<forall>x\<in>set (shapes c). x < fresh c \<Longrightarrow>
   shapes (splitRings r vs idx c) = shapes c @ map (\<lambda>i. fresh c + i) [0..<length vs]"
proof (induction vs arbitrary: idx c)
  case Nil
  then show ?case by simp
next
  case (Cons v vs)
  let ?c1 = "shapes_add (fresh c) (snd (observable (ringRecord (store c r) idx v) c))"
  have notin: "fresh c \<notin> set (shapes c)" using Cons.prems by auto
  have sh: "shapes ?c1 = shapes c @ [fresh c]" and fr: "fresh ?c1 = Suc (fresh c)"
    using notin by (simp_all add: observable_def shapes_add_def set_add_def)
  have inv: "\<forall>x\<in>set (shapes ?c1). x < fresh ?c1" using Cons.prems sh fr by auto
  have step: "splitRings r (v # vs) idx c = splitRings r vs (Suc idx) ?c1"
    by (simp add: observable_def ringRecord_def)
  have "shapes (splitRings r vs (Suc idx) ?c1) = shapes ?c1 @ map (\<lambda>i. fresh ?c1 + i) [0..<length vs]"
    by (rule Cons.IH [OF inv])
  also have "\<dots> = shapes c @ fresh c # map (\<lambda>i. Suc (fresh c) + i) [0..<length vs]"
    using sh fr by simp
  also have "fresh c # map (\<lambda>i. Suc (fresh c) + i) [0..<length vs]
              = map (\<lambda>i. fresh c + i) [0..<length (v # vs)]"
    by (simp add: upt_conv_Cons map_Suc_upt [symmetric] del: upt_Suc)
  finally show ?case using step by simp
qed

lemma splitRings_new:
  "r < fresh c \<Longrightarrow> i < length vs \<Longrightarrow>
   store (splitRings r vs idx c) (fresh c + i) = ringRecord (store c r) (idx + i) (vs ! i)"
proof (induction vs arbitrary: idx c i)
  case Nil
  then show ?case by simp
next
  case (Cons v vs)
  let ?c1 = "shapes_add (fresh c) (snd (observable (ringRecord (store c r) idx v) c))"
  have fr: "fresh ?c1 = Suc (fresh c)" by (simp add: observable_def shapes_add_def)
  have str: "store ?c1 r = store c r" using Cons.prems(1) by (simp add: observable_def shapes_add_def)
  have st0: "store ?c1 (fresh c) = ringRecord (store c r) idx v"
    by (simp add: observable_def shapes_add_def)
  have step: "splitRings r (v # vs) idx c = splitRings r vs (Suc idx) ?c1"
    by (simp add: observable_def ringRecord_def)
  show ?case
  proof (cases i)
    case 0
    have "store (splitRings r vs (Suc idx) ?c1) (fresh c) = store ?c1 (fresh c)"
      by (rule splitRings_old) (simp add: fr)
    with 0 step st0 show ?thesis by simp
  next
    case (Suc j)
    then have j: "j < length vs" using Cons.prems(2) by simp
    have r1: "r < fresh ?c1" using Cons.prems(1) fr by simp
    have "store (splitRings r vs (Suc idx) ?c1) (fresh ?c1 + j) = ringRecord (store ?c1 r) (Suc idx + j) (vs ! j)"
      by (rule Cons.IH [OF r1 j])
    with Suc step fr str show ?thesis by simp
  qed
qed

text \<open>
  Claim C4. For a selection of exactly one shape, of type \<open>multi_polygon\<close> with m rings,
  \<open>split\<close> adds m new records of type \<open>polygon\<close>, the ring at index i giving a record whose id
  is the original id followed by i and whose vertices are that ring, and deletes the
  original: the set grows by m - 1. The selected shape is a member of the annotation set,
  whose members are allocated references.
\<close>

theorem split_replaces_multi_polygon:
  assumes sel: "targetShapes c = [r]"
    and ty: "geom_type (geometry (store c r)) = ''multi_polygon''"
    and mv: "mvertices (geometry (store c r)) = Some mv"
    and mem: "r \<in> set (shapes c)"
    and dsh: "distinct (shapes c)"
    and fr: "\<forall>x\<in>set (shapes c). x < fresh c"
  shows "\<exists>c'. split_shape c = Returned c'
    \<and> shapes c' = removeAll r (shapes c) @ map (\<lambda>i. fresh c + i) [0..<length mv]
    \<and> length (shapes c') + 1 = length (shapes c) + length mv
    \<and> (\<forall>i<length mv. fresh c + i \<notin> set (shapes c)
          \<and> store c' (fresh c + i)
              = (store c r)\<lparr>id_s := id_s (store c r) @ toString i,
                   geometry := \<lparr>vertices = mv ! i, geom_type = ''polygon'', mvertices = Some []\<rparr>\<rparr>)
    \<and> (\<forall>x<fresh c. store c' x = store c x)"
proof -
  let ?c' = "shapes_delete r (splitRings r mv 0 c)"
  have rf: "r < fresh c" using mem fr by auto
  have m: "split_shape c = Returned ?c'" using sel ty mv by (simp add: split_shape_def)
  have notin: "r \<notin> set (map (\<lambda>i. fresh c + i) [0..<length mv])" using rf by auto
  have sh: "shapes ?c' = removeAll r (shapes c) @ map (\<lambda>i. fresh c + i) [0..<length mv]"
    using notin by (simp add: shapes_delete_def set_delete_def splitRings_shapes [OF fr])
  have "length (removeAll r (shapes c)) + 1 = length (shapes c)"
    using mem dsh by (simp add: distinct_remove1_removeAll [symmetric] length_remove1)
       (cases "shapes c", auto)
  then have len: "length (shapes ?c') + 1 = length (shapes c) + length mv" using sh by simp
  have new: "\<forall>i<length mv. fresh c + i \<notin> set (shapes c)
          \<and> store ?c' (fresh c + i)
              = (store c r)\<lparr>id_s := id_s (store c r) @ toString i,
                   geometry := \<lparr>vertices = mv ! i, geom_type = ''polygon'', mvertices = Some []\<rparr>\<rparr>"
  proof (intro allI impI conjI)
    fix i assume i: "i < length mv"
    show "fresh c + i \<notin> set (shapes c)" using fr by auto
    show "store ?c' (fresh c + i)
              = (store c r)\<lparr>id_s := id_s (store c r) @ toString i,
                   geometry := \<lparr>vertices = mv ! i, geom_type = ''polygon'', mvertices = Some []\<rparr>\<rparr>"
      using splitRings_new [OF rf i, of 0] by (simp add: shapes_delete_def ringRecord_def)
  qed
  have old: "\<forall>x<fresh c. store ?c' x = store c x"
    by (simp add: shapes_delete_def splitRings_old)
  from m sh len new old show ?thesis by blast
qed

lemma canvasA_fields:
  "targetShapes (canvasA sel) = sel"
  "shapes (canvasA sel) = [0, 1, 2]"
  "fresh (canvasA sel) = 3"
  "store (canvasA sel) 0 = polyData ''a'' [0, 0, 1, 0, 0, 1]"
  "store (canvasA sel) (Suc 0) = polyData ''b'' [1, 1, 1, 0, 0, 1]"
  "store (canvasA sel) 2 = multiData ''m'' [[0, 0, 1, 0, 1, 1], [0, 0, 1, 1, 0, 1]]"
  by (simp_all add: canvasA_def)

theorem merge_replaces_selection_witness:
  "(\<exists>c'. merge (canvasA [0, 1]) = Returned c'
      \<and> shapes c' = [2, 3]
      \<and> geom_type (geometry (store c' 3)) = ''multi_polygon''
      \<and> mvertices (geometry (store c' 3)) = Some [[0, 0, 1, 0, 0, 1], [1, 1, 1, 0, 0, 1]]
      \<and> id_s (store c' 3) = ''aab'')
   \<and> (\<exists>c'. merge (canvasA [2, 0]) = Returned c'
      \<and> shapes c' = [1, 3]
      \<and> mvertices (geometry (store c' 3))
          = Some [[0, 0, 1, 0, 1, 1], [0, 0, 1, 1, 0, 1], [0, 0, 1, 0, 0, 1]]
      \<and> id_s (store c' 3) = ''mma'')"
proof -
  have a: "\<exists>c'. merge (canvasA [0, 1]) = Returned c'
      \<and> shapes c' = [2, 3]
      \<and> geom_type (geometry (store c' 3)) = ''multi_polygon''
      \<and> mvertices (geometry (store c' 3)) = Some [[0, 0, 1, 0, 0, 1], [1, 1, 1, 0, 0, 1]]
      \<and> id_s (store c' 3) = ''aab''"
    using merge_replaces_selection [of "canvasA [0, 1]"]
    by (simp add: canvasA_fields polyData_def ringsOf_def getFlattenVertices_def) blast
  have b: "\<exists>c'. merge (canvasA [2, 0]) = Returned c'
      \<and> shapes c' = [1, 3]
      \<and> mvertices (geometry (store c' 3))
          = Some [[0, 0, 1, 0, 1, 1], [0, 0, 1, 1, 0, 1], [0, 0, 1, 0, 0, 1]]
      \<and> id_s (store c' 3) = ''mma''"
    using merge_replaces_selection [of "canvasA [2, 0]"]
    by (simp add: canvasA_fields polyData_def multiData_def ringsOf_def getFlattenVertices_def) blast
  from a b show ?thesis by blast
qed

theorem split_replaces_multi_polygon_witness:
  "\<exists>c'. split_shape (canvasA [2]) = Returned c'
      \<and> shapes c' = [0, 1, 3, 4]
      \<and> store c' 3 = \<lparr>id_s = ''m0'',
            geometry = \<lparr>vertices = [0, 0, 1, 0, 1, 1], geom_type = ''polygon'', mvertices = Some []\<rparr>,
            color_s = ''green''\<rparr>
      \<and> store c' 4 = \<lparr>id_s = ''m1'',
            geometry = \<lparr>vertices = [0, 0, 1, 1, 0, 1], geom_type = ''polygon'', mvertices = Some []\<rparr>,
            color_s = ''green''\<rparr>
      \<and> store c' 0 = store (canvasA [2]) 0"
proof -
  have t0: "toString 0 = ''0''" by (simp add: toString.simps [of 0])
  have t1: "toString (Suc 0) = ''1''" by (simp add: toString.simps [of "Suc 0"])
  have h: "targetShapes (canvasA [2]) = [2]"
     "geom_type (geometry (store (canvasA [2]) 2)) = ''multi_polygon''"
     "mvertices (geometry (store (canvasA [2]) 2)) = Some [[0, 0, 1, 0, 1, 1], [0, 0, 1, 1, 0, 1]]"
     "2 \<in> set (shapes (canvasA [2]))" "distinct (shapes (canvasA [2]))"
     "\<forall>x\<in>set (shapes (canvasA [2])). x < fresh (canvasA [2])"
    by (simp_all add: canvasA_fields multiData_def)
  from split_replaces_multi_polygon [OF h]
  obtain c' where c': "split_shape (canvasA [2]) = Returned c'"
    "shapes c' = removeAll 2 (shapes (canvasA [2]))
        @ map (\<lambda>i. fresh (canvasA [2]) + i) [0..<length [[0, 0, 1, 0, 1, 1], [0, 0, 1, 1, 0, 1 :: real]]]"
    "\<forall>i<length [[0, 0, 1, 0, 1, 1], [0, 0, 1, 1, 0, 1 :: real]]. fresh (canvasA [2]) + i \<notin> set (shapes (canvasA [2])) \<and> store c' (fresh (canvasA [2]) + i)
              = (store (canvasA [2]) 2)\<lparr>id_s := id_s (store (canvasA [2]) 2) @ toString i,
                   geometry := \<lparr>vertices = [[0, 0, 1, 0, 1, 1], [0, 0, 1, 1, 0, 1]] ! i,
                       geom_type = ''polygon'', mvertices = Some []\<rparr>\<rparr>"
    "\<forall>x<fresh (canvasA [2]). store c' x = store (canvasA [2]) x"
    by blast
  have s: "shapes c' = [0, 1, 3, 4]" using c'(2) by (simp add: canvasA_fields upt_rec)
  have r3: "store c' 3 = \<lparr>id_s = ''m0'',
            geometry = \<lparr>vertices = [0, 0, 1, 0, 1, 1], geom_type = ''polygon'', mvertices = Some []\<rparr>,
            color_s = ''green''\<rparr>"
    using c'(3) [THEN spec, of 0] by (simp add: canvasA_fields multiData_def t0)
  have r4: "store c' 4 = \<lparr>id_s = ''m1'',
            geometry = \<lparr>vertices = [0, 0, 1, 1, 0, 1], geom_type = ''polygon'', mvertices = Some []\<rparr>,
            color_s = ''green''\<rparr>"
    using c'(3) [THEN spec, of "Suc 0"] by (simp add: canvasA_fields multiData_def t1)
  from c'(4) have r0: "store c' 0 = store (canvasA [2]) 0" by (simp add: canvasA_fields)
  from c'(1) s r3 r4 r0 show ?thesis by blast
qed

theorem merge_split_guards_witness:
  "merge (canvasA [0]) = Returned (canvasA [0])
   \<and> merge (canvasA []) = Returned (canvasA [])
   \<and> split_shape (canvasA [0]) = Returned (canvasA [0])
   \<and> split_shape (canvasA [2, 0]) = Returned (canvasA [2, 0])
   \<and> split_shape (canvasA []) = Returned (canvasA [])"
proof -
  have a: "merge (canvasA [0]) = Returned (canvasA [0])"
    using merge_split_guards [of "canvasA [0]"] by (simp add: canvasA_fields)
  have b: "merge (canvasA []) = Returned (canvasA [])"
    using merge_split_guards [of "canvasA []"] by (simp add: canvasA_fields)
  have c: "split_shape (canvasA [0]) = Returned (canvasA [0])"
    using merge_split_guards [of "canvasA [0]"] by (simp add: canvasA_fields polyData_def)
  have d: "split_shape (canvasA [2, 0]) = Returned (canvasA [2, 0])"
    using merge_split_guards [of "canvasA [2, 0]"] by (simp add: canvasA_fields)
  have e: "split_shape (canvasA []) = Returned (canvasA [])"
    using merge_split_guards [of "canvasA []"] by (simp add: canvasA_fields)
  from a b c d e show ?thesis by blast
qed

section \<open>Dragging a node\<close>

lemma drags_refl: "drags r s s"
  by (simp add: drags_def set_vertices_def)







lemma drags_others: "drags r s t \<Longrightarrow> x \<noteq> r \<Longrightarrow> store t x = store s x"
proof -
  assume d: "drags r s t" and x: "x \<noteq> r"
  then have "store t = store (set_vertices r (vertices (geometry (store t r))) s)"
    by (simp add: drags_def)
  then have "store t x = store (set_vertices r (vertices (geometry (store t r))) s) x" by simp
  also have "\<dots> = store s x" using x by (simp add: set_vertices_def)
  finally show ?thesis .
qed





















lemma envA_fields:
  "super_onRootUp envA = Returned" "super_onRootDown envA = Returned"
  "isValid envA shape d = (6 \<le> length (vertices (geometry d)) \<and> distinct (pairs (vertices (geometry d))))"
  by (simp_all add: envA_def)


section \<open>Pointer-down while a polygon is drawn\<close>

text \<open>
  Claim C8, as amended. While a polygon is being drawn (\<open>create\<close> mode, a transient shape
  exists), a pointer-down with \<open>buttons\<close> other than 2 whose squared pixel distance to the
  shape's last click is below 2 and which arrives while a double-click timer is pending
  (\<open>isDbClick \<ge> 0\<close>) runs \<open>createPolygon\<close>, which closes the polygon (committed when valid,
  discarded otherwise) and appends nothing; any other pointer-down with \<open>buttons\<close> other than 2
  clears the pending timer, appends a vertex at the clamped cursor position through
  \<open>pushNode\<close>, and starts a new timer of 180 ms whose identifier becomes \<open>isDbClick\<close>; a
  pointer-down with \<open>buttons = 2\<close> neither closes nor appends.
\<close>

theorem pointer_down_while_drawing:
  assumes sup: "super_onRootDown env s = Returned s0"
    and cr: "mode_2d s0 = ''create''"
    and tmp: "tmpShape s0 = Some shape"
    and img: "0 < imageWidth s0 \<and> 0 < imageHeight s0"
  shows
   "(let mx = max (min (localX evt / imageWidth s0) 1) 0;
         my = max (min (localY evt / imageHeight s0) 1) 0;
         d2 = (localX evt - lastX shape) * (localX evt - lastX shape)
              + (localY evt - lastY shape) * (localY evt - lastY shape);
         popped = popNode env shape (store s0 (data shape));
         pushed = pushNode env mx my shape (store s0 (data shape))
     in (buttons evt = 2 \<longrightarrow> onRootDown env newId evt s = Returned s0)
      \<and> (buttons evt \<noteq> 2 \<and> 0 \<le> isDbClick s0 \<and> d2 < 2 \<longrightarrow>
           onRootDown env newId evt s
             = createPolygon env newId
                 (s0\<lparr>isCreating := True, mouseX := mx, mouseY := my, updated := False\<rparr>)
           \<and> (\<exists>s'. onRootDown env newId evt s = Returned s'
                \<and> tmpShape s' = None \<and> timers s' = timers s0 \<and> isDbClick s' = isDbClick s0
                \<and> (if isValid env (fst popped) (snd popped)
                    then shapes s' = set_add (data (fst popped)) (shapes s0)
                         \<and> store s' (data (fst popped)) = (snd popped)\<lparr>id_s := newId\<rparr>
                    else shapes s' = shapes s0)))
      \<and> (buttons evt \<noteq> 2 \<and> \<not> (0 \<le> isDbClick s0 \<and> d2 < 2) \<longrightarrow>
           (\<exists>s'. onRootDown env newId evt s = Returned s'
                \<and> tmpShape s' = Some (fst pushed)
                \<and> store s' = (store s0)(data shape := snd pushed)
                \<and> shapes s' = shapes s0
                \<and> isDbClick s' = int (Suc (timerCount s0))
                \<and> timers s' = filter (\<lambda>t. int (fst t) \<noteq> isDbClick s0) (timers s0)
                                @ [(Suc (timerCount s0), 180)])))"
proof -
  let ?mx = "max (min (localX evt / imageWidth s0) 1) 0"
  let ?my = "max (min (localY evt / imageHeight s0) 1) 0"
  let ?d2 = "(localX evt - lastX shape) * (localX evt - lastX shape)
              + (localY evt - lastY shape) * (localY evt - lastY shape)"
  let ?popped = "popNode env shape (store s0 (data shape))"
  let ?pushed = "pushNode env ?mx ?my shape (store s0 (data shape))"
  let ?s2 = "s0\<lparr>isCreating := True, mouseX := ?mx, mouseY := ?my, updated := False\<rparr>"
  have a: "buttons evt = 2 \<longrightarrow> onRootDown env newId evt s = Returned s0"
    using sup by (simp add: onRootDown_def)
  have b1: "buttons evt \<noteq> 2 \<and> 0 \<le> isDbClick s0 \<and> ?d2 < 2 \<longrightarrow>
           onRootDown env newId evt s = createPolygon env newId ?s2"
    using sup cr tmp by (simp add: onRootDown_def Let_def)
  have b2: "\<exists>s'. createPolygon env newId ?s2 = Returned s'
                \<and> tmpShape s' = None \<and> timers s' = timers s0 \<and> isDbClick s' = isDbClick s0
                \<and> (if isValid env (fst ?popped) (snd ?popped)
                    then shapes s' = set_add (data (fst ?popped)) (shapes s0)
                         \<and> store s' (data (fst ?popped)) = (snd ?popped)\<lparr>id_s := newId\<rparr>
                    else shapes s' = shapes s0)"
    using tmp by (simp add: createPolygon_def Let_def shapes_add_def split_beta)
  have c: "buttons evt \<noteq> 2 \<and> \<not> (0 \<le> isDbClick s0 \<and> ?d2 < 2) \<longrightarrow>
           (\<exists>s'. onRootDown env newId evt s = Returned s'
                \<and> tmpShape s' = Some (fst ?pushed)
                \<and> store s' = (store s0)(data shape := snd ?pushed)
                \<and> shapes s' = shapes s0
                \<and> isDbClick s' = int (Suc (timerCount s0))
                \<and> timers s' = filter (\<lambda>t. int (fst t) \<noteq> isDbClick s0) (timers s0)
                                @ [(Suc (timerCount s0), 180)])"
    using sup cr tmp
    by (simp add: onRootDown_def Let_def clearTimeout_def setTimeout_def split_beta)
  from a b1 b2 c show ?thesis unfolding Let_def by metis
qed

lemma drawingA_fields:
  "mode_2d (drawingA db ts) = ''create''" "tmpShape (drawingA db ts) = Some tmpShapeA"
  "imageWidth (drawingA db ts) = 100" "imageHeight (drawingA db ts) = 100"
  "isDbClick (drawingA db ts) = db" "timers (drawingA db ts) = ts"
  "timerCount (drawingA db ts) = 6" "shapes (drawingA db ts) = [0, 1, 2]"
  "store (drawingA db ts) 3 = tmpDataA"
  by (simp_all add: drawingA_def canvasA_def)

text \<open>
  The claim as stated has every pointer-down that is not a double click append a vertex. A
  pointer-down of the secondary button, far from the last click and with no timer pending,
  leaves the polygon under construction as it is, where the same event of the primary button
  appends the vertex (4/5, 1/5).
\<close>

theorem secondary_button_down_appends_nothing:
  "onRootDown envA ''n1'' \<lparr>buttons = 2, localX = 80, localY = 20\<rparr> (drawingA (- 1) [])
     = Returned (drawingA (- 1) [])
   \<and> tmpShape (drawingA (- 1) []) = Some tmpShapeA
   \<and> vertices (geometry (store (drawingA (- 1) []) (data tmpShapeA)))
       = [0, 0, 1, 0, 1 / 2, 1 / 2, 1 / 2, 1 / 2]
   \<and> shapes (drawingA (- 1) []) = [0, 1, 2]
   \<and> (\<exists>s'. onRootDown envA ''n1'' \<lparr>buttons = 1, localX = 80, localY = 20\<rparr> (drawingA (- 1) [])
              = Returned s'
         \<and> vertices (geometry (store s' (data tmpShapeA)))
             = [0, 0, 1, 0, 1 / 2, 1 / 2, 1 / 2, 1 / 2, 4 / 5, 1 / 5])"
proof -
  have a: "onRootDown envA ''n1'' \<lparr>buttons = 2, localX = 80, localY = 20\<rparr> (drawingA (- 1) [])
     = Returned (drawingA (- 1) [])"
    by (simp add: onRootDown_def envA_fields)
  have b: "vertices (geometry (store (drawingA (- 1) []) (data tmpShapeA)))
       = [0, 0, 1, 0, 1 / 2, 1 / 2, 1 / 2, 1 / 2]"
    by (simp add: tmpShapeA_def drawingA_fields tmpDataA_def)
  have c: "\<exists>s'. onRootDown envA ''n1'' \<lparr>buttons = 1, localX = 80, localY = 20\<rparr> (drawingA (- 1) [])
              = Returned s'
         \<and> vertices (geometry (store s' (data tmpShapeA)))
             = [0, 0, 1, 0, 1 / 2, 1 / 2, 1 / 2, 1 / 2, 4 / 5, 1 / 5]"
    by (simp add: onRootDown_def envA_def drawingA_fields Let_def tmpShapeA_def tmpDataA_def
        clearTimeout_def setTimeout_def)
  from a b c drawingA_fields(2,8) [of "- 1" "[]"] show ?thesis by blast
qed

theorem pointer_down_while_drawing_witness:
  "onRootDown envA ''n1'' \<lparr>buttons = 2, localX = 50, localY = 50\<rparr> (drawingA 6 [(6, 180)])
     = Returned (drawingA 6 [(6, 180)])
   \<and> (\<exists>s'. onRootDown envA ''n1'' \<lparr>buttons = 1, localX = 51, localY = 50\<rparr> (drawingA 6 [(6, 180)])
              = Returned s'
         \<and> tmpShape s' = None \<and> shapes s' = [0, 1, 2, 3]
         \<and> id_s (store s' 3) = ''n1''
         \<and> vertices (geometry (store s' 3)) = [0, 0, 1, 0, 1 / 2, 1 / 2])
   \<and> (\<exists>s'. onRootDown envA ''n1'' \<lparr>buttons = 1, localX = 80, localY = 20\<rparr> (drawingA 6 [(6, 180)])
              = Returned s'
         \<and> shapes s' = [0, 1, 2]
         \<and> vertices (geometry (store s' 3)) = [0, 0, 1, 0, 1 / 2, 1 / 2, 1 / 2, 1 / 2, 4 / 5, 1 / 5]
         \<and> isDbClick s' = 7 \<and> timers s' = [(7, 180)])
   \<and> (\<exists>s'. onRootDown envA ''n1'' \<lparr>buttons = 1, localX = 51, localY = 50\<rparr> (drawingA (- 1) [])
              = Returned s'
         \<and> shapes s' = [0, 1, 2]
         \<and> vertices (geometry (store s' 3)) = [0, 0, 1, 0, 1 / 2, 1 / 2, 1 / 2, 1 / 2, 51 / 100, 1 / 2]
         \<and> isDbClick s' = 7 \<and> timers s' = [(7, 180)])"
proof -
  let ?s = "drawingA 6 [(6, 180)]" and ?t = "drawingA (- 1) []"
  have hs: "super_onRootDown envA (drawingA db ts) = Returned (drawingA db ts)"
    "mode_2d (drawingA db ts) = ''create''" "tmpShape (drawingA db ts) = Some tmpShapeA"
    "0 < imageWidth (drawingA db ts) \<and> 0 < imageHeight (drawingA db ts)" for db ts
    by (simp_all add: envA_fields drawingA_fields)
  have sA: "data tmpShapeA = 3" "lastX tmpShapeA = 50" "lastY tmpShapeA = 50"
    by (simp_all add: tmpShapeA_def)
  have pop: "popNode envA tmpShapeA tmpDataA
      = (tmpShapeA\<lparr>nodes := nodes tmpShapeA - 1\<rparr>,
         tmpDataA\<lparr>geometry := (geometry tmpDataA)\<lparr>vertices := [0, 0, 1, 0, 1 / 2, 1 / 2]\<rparr>\<rparr>)"
    by (simp add: envA_def tmpDataA_def)
  have push: "pushNode envA x y tmpShapeA tmpDataA
      = (tmpShapeA\<lparr>nodes := Suc (nodes tmpShapeA)\<rparr>,
         tmpDataA\<lparr>geometry := (geometry tmpDataA)\<lparr>vertices :=
            [0, 0, 1, 0, 1 / 2, 1 / 2, 1 / 2, 1 / 2, x, y]\<rparr>\<rparr>)" for x y
    by (simp add: envA_def tmpDataA_def)
  have valid: "isValid envA sh (tmpDataA\<lparr>geometry := (geometry tmpDataA)\<lparr>vertices := [0, 0, 1, 0, 1 / 2, 1 / 2]\<rparr>\<rparr>)" for sh
    by (simp add: envA_fields)
  have a: "onRootDown envA ''n1'' \<lparr>buttons = 2, localX = 50, localY = 50\<rparr> ?s = Returned ?s"
    using pointer_down_while_drawing [OF hs [of 6 "[(6, 180)]"], where evt = "\<lparr>buttons = 2, localX = 50, localY = 50\<rparr>" and newId = "''n1''"]
    by (simp add: Let_def)
  have b: "\<exists>s'. onRootDown envA ''n1'' \<lparr>buttons = 1, localX = 51, localY = 50\<rparr> ?s = Returned s'
         \<and> tmpShape s' = None \<and> shapes s' = [0, 1, 2, 3]
         \<and> id_s (store s' 3) = ''n1''
         \<and> vertices (geometry (store s' 3)) = [0, 0, 1, 0, 1 / 2, 1 / 2]"
    using pointer_down_while_drawing [OF hs [of 6 "[(6, 180)]"], where evt = "\<lparr>buttons = 1, localX = 51, localY = 50\<rparr>" and newId = "''n1''"]
    by (simp add: Let_def drawingA_fields sA pop valid set_add_def) force
  have c: "\<exists>s'. onRootDown envA ''n1'' \<lparr>buttons = 1, localX = 80, localY = 20\<rparr> ?s = Returned s'
         \<and> shapes s' = [0, 1, 2]
         \<and> vertices (geometry (store s' 3)) = [0, 0, 1, 0, 1 / 2, 1 / 2, 1 / 2, 1 / 2, 4 / 5, 1 / 5]
         \<and> isDbClick s' = 7 \<and> timers s' = [(7, 180)]"
    using pointer_down_while_drawing [OF hs [of 6 "[(6, 180)]"], where evt = "\<lparr>buttons = 1, localX = 80, localY = 20\<rparr>" and newId = "''n1''"]
    by (simp add: Let_def drawingA_fields sA push) force
  have d: "\<exists>s'. onRootDown envA ''n1'' \<lparr>buttons = 1, localX = 51, localY = 50\<rparr> ?t = Returned s'
         \<and> shapes s' = [0, 1, 2]
         \<and> vertices (geometry (store s' 3)) = [0, 0, 1, 0, 1 / 2, 1 / 2, 1 / 2, 1 / 2, 51 / 100, 1 / 2]
         \<and> isDbClick s' = 7 \<and> timers s' = [(7, 180)]"
    using pointer_down_while_drawing [OF hs [of "- 1" "[]"], where evt = "\<lparr>buttons = 1, localX = 51, localY = 50\<rparr>" and newId = "''n1''"]
    by (simp add: Let_def drawingA_fields sA push) force
  from a b c d show ?thesis by blast
qed

end
